theory Spec2Isabelle
  imports Complex_Main
begin

section \<open>Conventions of the embedding\<close>

text \<open>
  The development embeds \<^verbatim>\<open>src/adolphus/tensor.py\<close>.  Python floats are idealised as
  the real numbers; the one non-finite value the module uses, \<^verbatim>\<open>float('inf')\<close>, is a
  constructor of its own where it occurs.  Every exception is a value: a function that can
  raise returns \<open>error + 'a\<close>, with \<open>Inl\<close> for the exception.
\<close>

datatype error = IndexError | AssertionError | ZeroDivisionError | KeyError | ValueError

definition ebind :: "error + 'a \<Rightarrow> ('a \<Rightarrow> error + 'b) \<Rightarrow> error + 'b" where
  "ebind m f = (case m of Inl e \<Rightarrow> Inl e | Inr v \<Rightarrow> f v)"

text \<open>Python's \<^verbatim>\<open>range(n)\<close>, as the list of indices the loops run over.\<close>

definition py_range :: "nat \<Rightarrow> int list" where
  "py_range n = map int [0..<n]"

section \<open>Tensor\<close>

text \<open>
  \<^verbatim>\<open>Tensor.__init__\<close> accepts a list of rows or, through its \<^verbatim>\<open>TypeError\<close> branch, a
  flat list of numbers.  The object keeps \<^verbatim>\<open>_h\<close>, \<^verbatim>\<open>_w\<close> and the row-major
  \<^verbatim>\<open>array('d')\<close> \<^verbatim>\<open>_tensor\<close>.
\<close>

datatype matrix = Rows "real list list" | Flat "real list"

record Tensor =
  t_h :: nat
  t_w :: nat
  t_tensor :: "real list"

text \<open>The loop over the rows of \<^verbatim>\<open>__init__\<close>: each row is asserted to have the width of
  the first one, and its entries are appended to \<^verbatim>\<open>vector\<close>.\<close>

fun init_rows :: "nat \<Rightarrow> real list list \<Rightarrow> real list \<Rightarrow> error + real list" where
  "init_rows wd [] vector = Inr vector"
| "init_rows wd (row # rows) vector =
     (if length row \<noteq> wd then Inl AssertionError
      else init_rows wd rows (vector @ row))"

definition Tensor_init :: "matrix \<Rightarrow> error + Tensor" where
  "Tensor_init m =
     (case m of
        Rows rows \<Rightarrow>
          (if length rows = 0 then Inr \<lparr>t_h = 0, t_w = 0, t_tensor = []\<rparr>
           else if length (hd rows) = 0 then Inr \<lparr>t_h = 0, t_w = 0, t_tensor = []\<rparr>
           else ebind (init_rows (length (hd rows)) rows [])
                  (\<lambda>vector. Inr \<lparr>t_h = length rows, t_w = length (hd rows), t_tensor = vector\<rparr>))
      | Flat col \<Rightarrow>
          (if length col = 0 then Inr \<lparr>t_h = 0, t_w = 0, t_tensor = []\<rparr>
           else Inr \<lparr>t_h = length col, t_w = 1, t_tensor = col\<rparr>))"

definition size_of :: "Tensor \<Rightarrow> nat \<times> nat" where
  "size_of T = (t_h T, t_w T)"

text \<open>\<^verbatim>\<open>array.__getitem__\<close>: a negative index counts from the end, an index out of range
  raises.\<close>

definition array_getitem :: "real list \<Rightarrow> int \<Rightarrow> error + real" where
  "array_getitem a k =
     (let n = int (length a); k' = (if k < 0 then k + n else k)
      in if 0 \<le> k' \<and> k' < n then Inr (a ! nat k') else Inl IndexError)"

text \<open>\<^verbatim>\<open>Tensor.__getitem__\<close> on a pair of integers (the only form the module itself
  uses).  The range checks accept negative indices, but the element is then read at
  \<^verbatim>\<open>i * _w + j\<close> with the indices as given.\<close>

definition getitem :: "Tensor \<Rightarrow> int \<Rightarrow> int \<Rightarrow> error + real" where
  "getitem T i j =
     (let hh = int (t_h T); ww = int (t_w T)
      in if \<not> ((i < 0 \<and> i \<ge> - hh) \<or> (i \<ge> 0 \<and> i < hh)) then Inl IndexError
         else if \<not> ((j < 0 \<and> j \<ge> - ww) \<or> (j \<ge> 0 \<and> j < ww)) then Inl IndexError
         else array_getitem (t_tensor T) (i * ww + j))"

subsection \<open>Comparison\<close>

text \<open>The inner loop of \<^verbatim>\<open>__richcmp__\<close> over the columns of row \<open>i\<close>: it clears \<^verbatim>\<open>eq\<close>
  and breaks at the first pair of entries further apart than \<^verbatim>\<open>1e-9\<close>.\<close>

fun richcmp_cols :: "Tensor \<Rightarrow> Tensor \<Rightarrow> int \<Rightarrow> int list \<Rightarrow> bool \<Rightarrow> error + bool" where
  "richcmp_cols A B i [] eq = Inr eq"
| "richcmp_cols A B i (j # js) eq =
     ebind (getitem A i j) (\<lambda>a.
     ebind (getitem B i j) (\<lambda>b.
       if \<bar>a - b\<bar> > 1 / 10 ^ 9 then Inr False
       else richcmp_cols A B i js eq))"

text \<open>The outer loop over the rows; \<^verbatim>\<open>eq\<close> is carried from row to row and never set
  back to \<^verbatim>\<open>True\<close>.\<close>

fun richcmp_rows :: "Tensor \<Rightarrow> Tensor \<Rightarrow> int list \<Rightarrow> int list \<Rightarrow> bool \<Rightarrow> error + bool" where
  "richcmp_rows A B [] js eq = Inr eq"
| "richcmp_rows A B (i # is) js eq =
     ebind (richcmp_cols A B i js eq) (\<lambda>eq'. richcmp_rows A B is js eq')"

text \<open>\<^verbatim>\<open>__richcmp__(self, t, o)\<close>: operator code 2 is equality, 3 is inequality; any other
  code falls off the end of the function, which returns \<^verbatim>\<open>None\<close>.\<close>

definition richcmp :: "Tensor \<Rightarrow> Tensor \<Rightarrow> int \<Rightarrow> error + bool option" where
  "richcmp A B opc =
     (case (size_of A, size_of B) of ((h1, w1), (h2, w2)) \<Rightarrow>
        if \<not> (h1 = h2 \<and> w1 = w2) then Inl AssertionError
        else ebind (richcmp_rows A B (py_range h1) (py_range w1) True) (\<lambda>eq.
               if opc = 2 then Inr (Some eq)
               else if opc = 3 then Inr (Some (\<not> eq))
               else Inr None))"

text \<open>
  What \<^verbatim>\<open>==\<close> does on two \<^verbatim>\<open>Tensor\<close> objects.  \<^verbatim>\<open>__richcmp__\<close> is a special method of
  Cython extension types; in a Python class it is an ordinary method that no operator
  calls.  The class defines none of \<^verbatim>\<open>__eq__\<close>, \<^verbatim>\<open>__ne__\<close> and \<^verbatim>\<open>__cmp__\<close>, and nothing
  in the module calls \<^verbatim>\<open>__richcmp__\<close>, so \<^verbatim>\<open>==\<close> is the default comparison of object
  identities.  An object is its identity together with its state.
\<close>

record Tensor_object =
  obj_id :: nat
  obj_state :: Tensor

definition Tensor_eq :: "Tensor_object \<Rightarrow> Tensor_object \<Rightarrow> error + bool" where
  "Tensor_eq a b = Inr (obj_id a = obj_id b)"

text \<open>What the specification calls "every corresponding pair of elements differs by at most
  1e-9", read off the row-major storage.\<close>

definition close_everywhere :: "Tensor \<Rightarrow> Tensor \<Rightarrow> bool" where
  "close_everywhere A B =
     list_all (\<lambda>i. list_all (\<lambda>j.
        \<bar>t_tensor A ! (i * t_w A + j) - t_tensor B ! (i * t_w B + j)\<bar> \<le> 1 / 10 ^ 9)
        [0..<t_w A]) [0..<t_h A]"

section \<open>Geometry\<close>

text \<open>
  Modelled from the spec: \<^verbatim>\<open>adolphus/geometry.py\<close> (\<^verbatim>\<open>Point\<close>, \<^verbatim>\<open>Pose\<close>,
  \<^verbatim>\<open>Rotation\<close>, \<^verbatim>\<open>avg_points\<close>, \<^verbatim>\<open>point_segment_dis\<close>) is imported by the module
  and is not part of the sources at hand.  A point is its three coordinates; the operations
  are the ones the specification names: difference, negation, scaling, cross product,
  magnitude, normalisation to unit length, Euclidean distance and the centroid of a list
  of points.  Normalising the zero vector and averaging no points divide by zero and are
  errors.
\<close>

record Point =
  x :: real
  y :: real
  z :: real

definition Point_sub :: "Point \<Rightarrow> Point \<Rightarrow> Point" where
  "Point_sub p q = \<lparr>x = x p - x q, y = y p - y q, z = z p - z q\<rparr>"

definition Point_add :: "Point \<Rightarrow> Point \<Rightarrow> Point" where
  "Point_add p q = \<lparr>x = x p + x q, y = y p + y q, z = z p + z q\<rparr>"

definition Point_neg :: "Point \<Rightarrow> Point" where
  "Point_neg p = \<lparr>x = - x p, y = - y p, z = - z p\<rparr>"

definition Point_mul :: "Point \<Rightarrow> real \<Rightarrow> Point" where
  "Point_mul p k = \<lparr>x = x p * k, y = y p * k, z = z p * k\<rparr>"

definition dot :: "Point \<Rightarrow> Point \<Rightarrow> real" where
  "dot p q = x p * x q + y p * y q + z p * z q"

definition cross :: "Point \<Rightarrow> Point \<Rightarrow> Point" where
  "cross p q = \<lparr>x = y p * z q - z p * y q,
                 y = z p * x q - x p * z q,
                 z = x p * y q - y p * x q\<rparr>"

definition magnitude :: "Point \<Rightarrow> real" where
  "magnitude p = sqrt ((x p)\<^sup>2 + (y p)\<^sup>2 + (z p)\<^sup>2)"

definition Point_unit :: "Point \<Rightarrow> error + Point" where
  "Point_unit p =
     (let m = magnitude p
      in if m = 0 then Inl ZeroDivisionError
         else Inr \<lparr>x = x p / m, y = y p / m, z = z p / m\<rparr>)"

definition euclidean :: "Point \<Rightarrow> Point \<Rightarrow> real" where
  "euclidean p q = sqrt ((x p - x q)\<^sup>2 + (y p - y q)\<^sup>2 + (z p - z q)\<^sup>2)"

definition avg_points :: "Point list \<Rightarrow> error + Point" where
  "avg_points ps =
     (if ps = [] then Inl ZeroDivisionError
      else Inr \<lparr>x = sum_list (map x ps) / real (length ps),
                y = sum_list (map y ps) / real (length ps),
                z = sum_list (map z ps) / real (length ps)\<rparr>)"

text \<open>
  Modelled from the spec: \<^verbatim>\<open>point_segment_dis(a, b, p)\<close>, the specification's
  "point-to-segment distance": the distance from \<open>p\<close> to the nearest point of the segment
  from \<open>a\<close> to \<open>b\<close> (the foot of the perpendicular when it falls inside the segment, the
  nearer end otherwise).
\<close>

definition point_segment_dis :: "Point \<Rightarrow> Point \<Rightarrow> Point \<Rightarrow> real" where
  "point_segment_dis a b p =
     (let ab = Point_sub b a; l2 = dot ab ab
      in if l2 = 0 then euclidean p a
         else let t = max 0 (min 1 (dot (Point_sub p a) ab / l2))
              in euclidean p (Point_add a (Point_mul ab t)))"

text \<open>
  Modelled from the spec: a pose is an external collaborator.  The module uses two of its
  operations, \<^verbatim>\<open>pose.map\<close> (a point of the local frame to the world frame) and
  \<^verbatim>\<open>pose.R.rotate\<close> (the rotation alone); both are taken as given functions.
\<close>

record Pose =
  pose_map :: "Point \<Rightarrow> Point"
  R_rotate :: "Point \<Rightarrow> Point"

text \<open>Python list indexing with a non-negative constant index.\<close>

definition list_get :: "'a list \<Rightarrow> nat \<Rightarrow> error + 'a" where
  "list_get xs n = (if n < length xs then Inr (xs ! n) else Inl IndexError)"

section \<open>Operations of Tensor on 3x3 tensors\<close>

text \<open>The column \<^verbatim>\<open>Point(self[0,j], self[1,j], self[2,j])\<close>, read entry by entry through
  \<^verbatim>\<open>__getitem__\<close>.\<close>

definition column :: "Tensor \<Rightarrow> int \<Rightarrow> error + Point" where
  "column T j =
     ebind (getitem T 0 j) (\<lambda>a.
     ebind (getitem T 1 j) (\<lambda>b.
     ebind (getitem T 2 j) (\<lambda>c. Inr \<lparr>x = a, y = b, z = c\<rparr>)))"

definition Tensor_neg :: "Tensor \<Rightarrow> error + Tensor" where
  "Tensor_neg T =
     ebind (getitem T 0 0) (\<lambda>a00. ebind (getitem T 0 1) (\<lambda>a01. ebind (getitem T 0 2) (\<lambda>a02.
     ebind (getitem T 1 0) (\<lambda>a10. ebind (getitem T 1 1) (\<lambda>a11. ebind (getitem T 1 2) (\<lambda>a12.
     ebind (getitem T 2 0) (\<lambda>a20. ebind (getitem T 2 1) (\<lambda>a21. ebind (getitem T 2 2) (\<lambda>a22.
       Tensor_init (Rows [[- a00, - a01, a02],
                          [- a10, - a11, a12],
                          [- a20, - a21, a22]]))))))))))"

definition Tensor_unit :: "Tensor \<Rightarrow> error + Tensor" where
  "Tensor_unit T =
     ebind (column T 0) (\<lambda>c1. ebind (Point_unit c1) (\<lambda>axis1.
     ebind (column T 1) (\<lambda>c2. ebind (Point_unit c2) (\<lambda>axis2.
     ebind (column T 2) (\<lambda>c3. ebind (Point_unit c3) (\<lambda>axis3.
       Tensor_init (Rows [[x axis1, x axis2, x axis3],
                          [y axis1, y axis2, y axis3],
                          [z axis1, z axis2, z axis3]])))))))"

definition schatten :: "Tensor \<Rightarrow> error + real" where
  "schatten T =
     ebind (column T 0) (\<lambda>c1.
     ebind (column T 1) (\<lambda>c2.
     ebind (column T 2) (\<lambda>c3.
       Inr (sqrt ((magnitude c1)\<^sup>2 + (magnitude c2)\<^sup>2 + (magnitude c3)\<^sup>2)))))"

text \<open>The two loops of \<^verbatim>\<open>frobenius\<close>, accumulating the squared differences.\<close>

fun frobenius_cols :: "Tensor \<Rightarrow> Tensor \<Rightarrow> int \<Rightarrow> int list \<Rightarrow> real \<Rightarrow> error + real" where
  "frobenius_cols A B i [] distance = Inr distance"
| "frobenius_cols A B i (j # js) distance =
     ebind (getitem B i j) (\<lambda>b.
     ebind (getitem A i j) (\<lambda>a.
       frobenius_cols A B i js (distance + (b - a)\<^sup>2)))"

fun frobenius_rows :: "Tensor \<Rightarrow> Tensor \<Rightarrow> int list \<Rightarrow> int list \<Rightarrow> real \<Rightarrow> error + real" where
  "frobenius_rows A B [] js distance = Inr distance"
| "frobenius_rows A B (i # is) js distance =
     ebind (frobenius_cols A B i js distance) (\<lambda>d. frobenius_rows A B is js d)"

definition frobenius :: "Tensor \<Rightarrow> Tensor \<Rightarrow> error + real" where
  "frobenius A B =
     (case (size_of A, size_of B) of ((h1, w1), (h2, w2)) \<Rightarrow>
        if \<not> (h1 = h2 \<and> w1 = w2) then Inl AssertionError
        else ebind (frobenius_rows A B (py_range h1) (py_range w1) 0) (\<lambda>d. Inr (sqrt d)))"

section \<open>Floats that may be infinite\<close>

text \<open>\<^verbatim>\<open>float('inf')\<close> occurs as the start value of the minimum in
  \<^verbatim>\<open>TensorModel.strength\<close> and in the default task parameters.\<close>

datatype pyfloat = Fin real | PInf

fun fless :: "pyfloat \<Rightarrow> pyfloat \<Rightarrow> bool" where
  "fless (Fin a) (Fin b) = (a < b)"
| "fless (Fin a) PInf = True"
| "fless PInf b = False"

text \<open>Python's \<^verbatim>\<open>max(a, b)\<close> keeps \<open>a\<close> unless \<open>b\<close> is greater.\<close>

definition fmax :: "pyfloat \<Rightarrow> pyfloat \<Rightarrow> pyfloat" where
  "fmax a b = (if fless a b then b else a)"

fun fadd :: "pyfloat \<Rightarrow> pyfloat \<Rightarrow> pyfloat" where
  "fadd (Fin a) (Fin b) = Fin (a + b)"
| "fadd a b = PInf"

text \<open>Division by a positive finite count; a zero divisor raises.\<close>

definition fdiv :: "pyfloat \<Rightarrow> real \<Rightarrow> error + pyfloat" where
  "fdiv a d =
     (if d = 0 then Inl ZeroDivisionError
      else case a of Fin v \<Rightarrow> Inr (Fin (v / d)) | PInf \<Rightarrow> Inr PInf)"

section \<open>CameraTensor\<close>

text \<open>
  Task parameters are a dictionary from names to numbers or lists of numbers.  The class
  attribute \<^verbatim>\<open>CameraTensor.defaults\<close> is one dictionary object; since the constructor
  binds \<^verbatim>\<open>self.task_params\<close> to that object and writes into it, dictionaries live in a
  store and are named by their address.
\<close>

datatype pval = Num pyfloat | Seq "pyfloat list"

type_synonym dict = "string \<rightharpoonup> pval"

type_synonym addr = nat

type_synonym store = "addr \<Rightarrow> dict"

text \<open>The address of the dictionary bound to the class attribute \<^verbatim>\<open>defaults\<close>, and
  its contents when the module is loaded.\<close>

definition defaults :: addr where
  "defaults = 0"

definition documented_defaults :: dict where
  "documented_defaults =
     [''ocular'' \<mapsto> Num (Fin 1),
      ''boundary_padding'' \<mapsto> Num (Fin 0),
      ''res_max'' \<mapsto> Seq [Fin 0, Fin 0],
      ''res_min'' \<mapsto> Seq [PInf, PInf],
      ''blur_max'' \<mapsto> Seq [Fin 1, PInf],
      ''angle_max'' \<mapsto> Seq [Fin (pi / 2), Fin (pi / 2)]]"

definition initial_store :: store where
  "initial_store = (\<lambda>a. Map.empty)(defaults := documented_defaults)"

record CameraTensor =
  task_params :: addr
  frustum_centre :: Point
  cam_tensor :: Tensor

text \<open>
  \<^verbatim>\<open>CameraTensor._get_tensor_matrix\<close>.  The frustum hull comes from the camera layer
  (\<^verbatim>\<open>gen_frustum_hull\<close>, a parameter here, reading the task parameters).  The result is
  the new value of \<^verbatim>\<open>_frustum_centre\<close> together with the matrix.
\<close>

definition CameraTensor_get_tensor_matrix ::
  "(dict \<Rightarrow> Point list) \<Rightarrow> Pose \<Rightarrow> dict \<Rightarrow> error + Point \<times> real list list" where
  "CameraTensor_get_tensor_matrix gen_frustum_hull pose tp =
     (let hull_pts = gen_frustum_hull tp
      in if hull_pts = [] then Inl AssertionError
         else
           ebind (avg_points hull_pts) (\<lambda>centre_c.
           ebind (avg_points (drop 4 hull_pts)) (\<lambda>a1.
           ebind (list_get hull_pts 2) (\<lambda>h2. ebind (list_get hull_pts 3) (\<lambda>h3.
           ebind (list_get hull_pts 6) (\<lambda>h6. ebind (list_get hull_pts 7) (\<lambda>h7.
           ebind (avg_points [h2, h3, h6, h7]) (\<lambda>a2.
           ebind (list_get hull_pts 0) (\<lambda>h0. ebind (list_get hull_pts 4) (\<lambda>h4.
           ebind (avg_points [h0, h3, h4, h7]) (\<lambda>a3.
             let first_axis = Point_sub a1 centre_c;
                 second_axis = Point_sub a2 centre_c;
                 third_axis = Point_sub a3 centre_c;
                 axis1 = R_rotate pose first_axis;
                 axis2 = R_rotate pose second_axis;
                 axis3 = R_rotate pose third_axis
             in Inr (pose_map pose centre_c,
                     [[x axis1, x axis2, x axis3],
                      [y axis1, y axis2, y axis3],
                      [z axis1, z axis2, z axis3]]))))))))))))"

text \<open>The first basis vector in the camera's own frame: \<^verbatim>\<open>first_axis\<close> of
  \<^verbatim>\<open>_get_tensor_matrix\<close>, before \<^verbatim>\<open>self.pose.R.rotate\<close> is applied to it.\<close>

definition local_first_axis :: "Point list \<Rightarrow> error + Point" where
  "local_first_axis hull_pts =
     ebind (avg_points hull_pts) (\<lambda>centre_c.
     ebind (avg_points (drop 4 hull_pts)) (\<lambda>a1.
       Inr (Point_sub a1 centre_c)))"

text \<open>
  \<^verbatim>\<open>CameraTensor.__init__\<close>, as far as the task parameters and the tensor go (the
  intrinsic parameters only reach the camera layer).  The store is updated before anything
  can fail, so the updated store is returned beside the result.
\<close>

definition CameraTensor_init ::
  "(dict \<Rightarrow> Point list) \<Rightarrow> Pose \<Rightarrow> dict \<Rightarrow> store \<Rightarrow> store \<times> (error + CameraTensor)" where
  "CameraTensor_init gen_frustum_hull pose tp st =
     (let self_task_params = defaults;
          st' = st(self_task_params := st self_task_params ++ tp)
      in (st',
          ebind (CameraTensor_get_tensor_matrix gen_frustum_hull pose (st' self_task_params))
            (\<lambda>(c, m).
          ebind (Tensor_init (Rows m)) (\<lambda>t.
            Inr \<lparr>task_params = self_task_params, frustum_centre = c, cam_tensor = t\<rparr>))))"

definition CameraTensor_centre :: "CameraTensor \<Rightarrow> Point" where
  "CameraTensor_centre c = frustum_centre c"

definition CameraTensor_axis :: "CameraTensor \<Rightarrow> error + Point" where
  "CameraTensor_axis c = column (cam_tensor c) 0"

section \<open>TriangleTensor\<close>

record TriangleTensor =
  tri_centre :: Point
  tri_tensor :: Tensor

definition TriangleTensor_get_tensor_basis :: "Point list \<Rightarrow> error + Point list" where
  "TriangleTensor_get_tensor_basis vertices =
     ebind (avg_points vertices) (\<lambda>centre.
     ebind (list_get vertices 0) (\<lambda>v0.
     ebind (list_get vertices 1) (\<lambda>v1.
     ebind (list_get vertices 2) (\<lambda>v2.
       let vector1 = Point_sub v0 centre;
           vector2 = Point_sub v1 centre;
           vector3 = Point_sub v2 centre;
           mag1 = point_segment_dis v0 v1 centre;
           mag2 = point_segment_dis v0 v2 centre;
           mag3 = point_segment_dis v1 v2 centre;
           mag = min mag1 (min mag2 mag3)
       in ebind (Point_unit vector1) (\<lambda>u1.
          ebind (Point_unit vector2) (\<lambda>u2.
          ebind (Point_unit (cross u1 u2)) (\<lambda>first_axis.
          ebind (Point_unit vector1) (\<lambda>second_axis.
          ebind (Point_unit (cross second_axis first_axis)) (\<lambda>third_axis.
            Inr [Point_mul first_axis mag, Point_mul second_axis mag,
                 Point_mul third_axis mag])))))))))"

definition TriangleTensor_get_tensor_matrix ::
  "Pose \<Rightarrow> Point list \<Rightarrow> error + Point \<times> real list list" where
  "TriangleTensor_get_tensor_matrix pose vertices =
     ebind (avg_points vertices) (\<lambda>centre.
     ebind (TriangleTensor_get_tensor_basis vertices) (\<lambda>basis.
     ebind (list_get basis 0) (\<lambda>b0.
     ebind (list_get basis 1) (\<lambda>b1.
     ebind (list_get basis 2) (\<lambda>b2.
       let axis1 = R_rotate pose b0;
           axis2 = R_rotate pose b1;
           axis3 = R_rotate pose b2
       in Inr (pose_map pose centre,
               [[x axis1, x axis2, x axis3],
                [y axis1, y axis2, y axis3],
                [z axis1, z axis2, z axis3]]))))))"

text \<open>\<^verbatim>\<open>TriangleTensor.__init__\<close>; \<open>vertices\<close> are \<^verbatim>\<open>self.triangle.vertices\<close>, the vertices
  as the occlusion triangle keeps them.\<close>

definition TriangleTensor_init :: "Point list \<Rightarrow> Pose \<Rightarrow> error + TriangleTensor" where
  "TriangleTensor_init vertices pose =
     ebind (TriangleTensor_get_tensor_matrix pose vertices) (\<lambda>(c, m).
     ebind (Tensor_init (Rows m)) (\<lambda>t.
       Inr \<lparr>tri_centre = c, tri_tensor = t\<rparr>))"

definition TriangleTensor_centre :: "TriangleTensor \<Rightarrow> Point" where
  "TriangleTensor_centre t = tri_centre t"

definition TriangleTensor_axis :: "TriangleTensor \<Rightarrow> error + Point" where
  "TriangleTensor_axis t = column (tri_tensor t) 0"

text \<open>A vector divided by its magnitude: what \<^verbatim>\<open>unit()\<close> returns for a vector that is not
  zero.\<close>

definition scaled :: "Point \<Rightarrow> Point" where
  "scaled p = \<lparr>x = x p / magnitude p, y = y p / magnitude p, z = z p / magnitude p\<rparr>"

section \<open>Distance and strength\<close>

datatype other = Camera CameraTensor | Triangle TriangleTensor

fun other_centre :: "other \<Rightarrow> Point" where
  "other_centre (Camera c) = CameraTensor_centre c"
| "other_centre (Triangle t) = TriangleTensor_centre t"

fun other_tensor :: "other \<Rightarrow> Tensor" where
  "other_tensor (Camera c) = cam_tensor c"
| "other_tensor (Triangle t) = tri_tensor t"

text \<open>\<^verbatim>\<open>CameraTensor.vision_distance\<close>.  Only the division stands inside the
  \<^verbatim>\<open>try\<close>; a float division by zero raises \<^verbatim>\<open>ZeroDivisionError\<close>, which is caught.\<close>

definition vision_distance :: "CameraTensor \<Rightarrow> other \<Rightarrow> error + real" where
  "vision_distance self other =
     (let euc_dist = euclidean (CameraTensor_centre self) (other_centre other)
      in ebind (Tensor_unit (cam_tensor self)) (\<lambda>su.
         ebind (Tensor_unit (other_tensor other)) (\<lambda>ou.
         ebind (Tensor_neg ou) (\<lambda>nou.
         ebind (frobenius su nou) (\<lambda>frob_dis.
           if 1 - frob_dis / sqrt 8 = 0 then Inr (- 1)
           else Inr ((1 / (1 - frob_dis / sqrt 8)) * (euc_dist + 1 / 10 ^ 4)))))))"

text \<open>\<^verbatim>\<open>CameraTensor.strength\<close>.\<close>

definition CameraTensor_strength :: "CameraTensor \<Rightarrow> TriangleTensor \<Rightarrow> error + real" where
  "CameraTensor_strength self triangle =
     (let euc_dis = euclidean (CameraTensor_centre self) (TriangleTensor_centre triangle)
      in ebind (CameraTensor_axis self) (\<lambda>sa.
         ebind (Point_unit sa) (\<lambda>sau.
         ebind (TriangleTensor_axis triangle) (\<lambda>ta.
         ebind (Point_unit ta) (\<lambda>tau.
           let rot_dis = euclidean sau (Point_neg tau)
           in ebind (schatten (cam_tensor self)) (\<lambda>s.
                if s\<^sup>2 = 0 then Inl ZeroDivisionError
                else
                  let re = 1 - euc_dis / s\<^sup>2;
                      rr = 1 - rot_dis / sqrt 2;
                      de = (if re < 0 then 0 else re);
                      dr = (if rr < 0 then 0 else rr)
                  in Inr (sqrt (de * dr))))))))"

section \<open>TensorModel\<close>

text \<open>
  The model maps camera names to camera tensors.  Two operations come from the scene layer
  and are parameters: \<^verbatim>\<open>views(subset)\<close>, the enumeration of the views (each a
  collection of camera names, iterated in some order), and \<^verbatim>\<open>occluded(point, camera,
  triangle_set)\<close>, the occlusion test.  \<open>scene_triangles\<close> stands for the set that
  \<^verbatim>\<open>coverage\<close> collects from the members of the scene.
\<close>

record ('s, 'o) TensorModel =
  cameras :: "string \<rightharpoonup> CameraTensor"
  views :: "'s \<Rightarrow> string list list"
  occluded :: "Point \<Rightarrow> string \<Rightarrow> 'o \<Rightarrow> bool"
  scene_triangles :: 'o

text \<open>The calls that \<^verbatim>\<open>TensorModel.strength\<close> makes, in order: which camera's strength
  was computed and for which camera the occlusion test ran.\<close>

datatype event = Strength_call string | Occluded_call string

text \<open>
  The loop over the cameras of one view.  \<^verbatim>\<open>not strength or self.occluded(...)\<close>
  evaluates the occlusion test only when the strength is not zero; either way the view's
  minimum becomes \<^verbatim>\<open>0.0\<close> and the loop breaks.
\<close>

fun view_loop ::
  "('s, 'o) TensorModel \<Rightarrow> TriangleTensor \<Rightarrow> 'o \<Rightarrow> string list \<Rightarrow> pyfloat \<Rightarrow> event list
     \<Rightarrow> event list \<times> (error + pyfloat)" where
  "view_loop M triangle triangle_set [] minstrength tr = (tr, Inr minstrength)"
| "view_loop M triangle triangle_set (camera # rest) minstrength tr =
     (case cameras M camera of
        None \<Rightarrow> (tr, Inl KeyError)
      | Some cam \<Rightarrow>
          (case CameraTensor_strength cam triangle of
             Inl e \<Rightarrow> (tr @ [Strength_call camera], Inl e)
           | Inr strength \<Rightarrow>
               if strength = 0 then (tr @ [Strength_call camera], Inr (Fin 0))
               else if occluded M (TriangleTensor_centre triangle) camera triangle_set
                 then (tr @ [Strength_call camera, Occluded_call camera], Inr (Fin 0))
               else if fless (Fin strength) minstrength
                 then view_loop M triangle triangle_set rest (Fin strength)
                        (tr @ [Strength_call camera, Occluded_call camera])
               else view_loop M triangle triangle_set rest minstrength
                        (tr @ [Strength_call camera, Occluded_call camera])))"

text \<open>The loop over the views: the maximum is updated after each view, and the loop
  breaks when it is exactly \<^verbatim>\<open>1.0\<close>.\<close>

fun views_loop ::
  "('s, 'o) TensorModel \<Rightarrow> TriangleTensor \<Rightarrow> 'o \<Rightarrow> string list list \<Rightarrow> pyfloat \<Rightarrow> event list
     \<Rightarrow> event list \<times> (error + pyfloat)" where
  "views_loop M triangle triangle_set [] maxstrength tr = (tr, Inr maxstrength)"
| "views_loop M triangle triangle_set (view # rest) maxstrength tr =
     (case view_loop M triangle triangle_set view PInf tr of
        (tr', Inl e) \<Rightarrow> (tr', Inl e)
      | (tr', Inr minstrength) \<Rightarrow>
          (let maxstrength' = fmax maxstrength minstrength
           in if maxstrength' = Fin 1 then (tr', Inr maxstrength')
              else views_loop M triangle triangle_set rest maxstrength' tr'))"

definition TensorModel_strength ::
  "('s, 'o) TensorModel \<Rightarrow> TriangleTensor \<Rightarrow> 'o \<Rightarrow> 's \<Rightarrow> event list \<times> (error + pyfloat)" where
  "TensorModel_strength M triangle triangle_set camera_subset =
     views_loop M triangle triangle_set (views M camera_subset) (Fin 0) []"

text \<open>
  A point cache is a dictionary from directional points to strengths, kept as an
  association list in insertion order; assigning to a key that is present replaces its
  value in place.  The directional point of a triangle is built by the geometry layer
  from the triangle's centre and axis (\<open>directional_point\<close>, a parameter).
\<close>

type_synonym 'p PointCache = "('p \<times> pyfloat) list"

fun setitem :: "'p PointCache \<Rightarrow> 'p \<Rightarrow> pyfloat \<Rightarrow> 'p PointCache" where
  "setitem [] k v = [(k, v)]"
| "setitem ((k', v') # kvs) k v =
     (if k' = k then (k, v) # kvs else (k', v') # setitem kvs k v)"

definition cache_getitem :: "'p PointCache \<Rightarrow> 'p \<Rightarrow> error + pyfloat" where
  "cache_getitem c k = (case map_of c k of None \<Rightarrow> Inl KeyError | Some v \<Rightarrow> Inr v)"

fun coverage_loop ::
  "('s, 'o) TensorModel \<Rightarrow> (Point \<Rightarrow> Point \<Rightarrow> 'p) \<Rightarrow> 's \<Rightarrow> TriangleTensor list \<Rightarrow> 'p PointCache
     \<Rightarrow> error + 'p PointCache" where
  "coverage_loop M directional_point camera_subset [] coverage = Inr coverage"
| "coverage_loop M directional_point camera_subset (triangle # rest) coverage =
     ebind (TriangleTensor_axis triangle) (\<lambda>axis.
       let point = directional_point (TriangleTensor_centre triangle) axis
       in ebind (snd (TensorModel_strength M triangle (scene_triangles M) camera_subset)) (\<lambda>s.
            coverage_loop M directional_point camera_subset rest (setitem coverage point s)))"

definition TensorModel_coverage ::
  "('s, 'o) TensorModel \<Rightarrow> (Point \<Rightarrow> Point \<Rightarrow> 'p) \<Rightarrow> TriangleTensor list \<Rightarrow> 's
     \<Rightarrow> error + 'p PointCache" where
  "TensorModel_coverage M directional_point object_triangles camera_subset =
     coverage_loop M directional_point camera_subset object_triangles []"

text \<open>The summation loop of \<^verbatim>\<open>performance\<close> over \<^verbatim>\<open>coverage.keys()\<close>.\<close>

fun performance_loop ::
  "'p PointCache \<Rightarrow> 'p list \<Rightarrow> pyfloat \<Rightarrow> real \<Rightarrow> error + pyfloat \<times> real" where
  "performance_loop coverage [] Fn Fd = Inr (Fn, Fd)"
| "performance_loop coverage (point # rest) Fn Fd =
     ebind (cache_getitem coverage point) (\<lambda>v.
       performance_loop coverage rest (fadd Fn v) (Fd + 1))"

text \<open>
  \<^verbatim>\<open>TensorModel.performance\<close>.  \<^verbatim>\<open>coverage or self.coverage(object, subset)\<close> takes the
  given cache only when it is neither \<^verbatim>\<open>None\<close> nor empty.
\<close>

definition TensorModel_performance ::
  "('s, 'o) TensorModel \<Rightarrow> (Point \<Rightarrow> Point \<Rightarrow> 'p) \<Rightarrow> TriangleTensor list \<Rightarrow> 's
     \<Rightarrow> 'p PointCache option \<Rightarrow> error + pyfloat" where
  "TensorModel_performance M directional_point object_triangles camera_subset coverage =
     ebind (case coverage of
              Some c \<Rightarrow> if c \<noteq> [] then Inr c
                        else TensorModel_coverage M directional_point object_triangles camera_subset
            | None \<Rightarrow> TensorModel_coverage M directional_point object_triangles camera_subset)
       (\<lambda>coverage'.
     ebind (performance_loop coverage' (map fst coverage') (Fin 0) 0) (\<lambda>(Fn, Fd).
       fdiv Fn Fd))"

section \<open>The aggregation in the words of the specification\<close>

text \<open>The value of one view, given the strength \<open>sv\<close> of each camera and the outcome
  \<open>occ\<close> of the occlusion test: 0 when a camera of the view has strength 0 or is
  occluded, the least strength of its cameras otherwise.\<close>

definition view_strength :: "(string \<Rightarrow> real) \<Rightarrow> (string \<Rightarrow> bool) \<Rightarrow> string list \<Rightarrow> real" where
  "view_strength sv occ view =
     (if \<exists>c\<in>set view. sv c = 0 \<or> occ c then 0 else Min (sv ` set view))"

text \<open>The radius in the words of the specification: the least of the three distances
  from a vertex to the opposite edge.\<close>

definition claimed_radius :: "Point \<Rightarrow> Point \<Rightarrow> Point \<Rightarrow> real" where
  "claimed_radius v0 v1 v2 =
     min (point_segment_dis v1 v2 v0) (min (point_segment_dis v0 v2 v1) (point_segment_dis v0 v1 v2))"

section \<open>Shape of the tensors the module builds\<close>

text \<open>Both constructors pass three rows of three entries to \<^verbatim>\<open>Tensor.__init__\<close>.\<close>

definition is_3x3 :: "Tensor \<Rightarrow> bool" where
  "is_3x3 T = (t_h T = 3 \<and> t_w T = 3 \<and> length (t_tensor T) = 9)"

section \<open>A small scene\<close>

text \<open>A frustum hull (near face at height 1, far face at height 3) and two poses, used
  to evaluate the definitions on concrete inputs.\<close>

definition example_hull :: "Point list" where
  "example_hull =
     [\<lparr>x = - 1, y = - 1, z = 1\<rparr>, \<lparr>x = 1, y = - 1, z = 1\<rparr>,
      \<lparr>x = 1, y = 1, z = 1\<rparr>, \<lparr>x = - 1, y = 1, z = 1\<rparr>,
      \<lparr>x = - 3, y = - 3, z = 3\<rparr>, \<lparr>x = 3, y = - 3, z = 3\<rparr>,
      \<lparr>x = 3, y = 3, z = 3\<rparr>, \<lparr>x = - 3, y = 3, z = 3\<rparr>]"

definition identity_pose :: Pose where
  "identity_pose = \<lparr>pose_map = (\<lambda>p. p), R_rotate = (\<lambda>p. p)\<rparr>"

definition quarter_turn_pose :: Pose where
  "quarter_turn_pose =
     \<lparr>pose_map = (\<lambda>p. \<lparr>x = x p, y = - z p, z = y p\<rparr>),
      R_rotate = (\<lambda>p. \<lparr>x = x p, y = - z p, z = y p\<rparr>)\<rparr>"

text \<open>The camera tensor that the constructor builds from that hull under the identity
  pose, a triangle tensor whose normal points back at the camera from the frustum centre,
  and one whose normal points away.\<close>

definition example_camera_tensor :: CameraTensor where
  "example_camera_tensor =
     \<lparr>task_params = defaults, frustum_centre = \<lparr>x = 0, y = 0, z = 2\<rparr>,
      cam_tensor = \<lparr>t_h = 3, t_w = 3, t_tensor = [0, 0, - 2, 0, 2, 0, 1, 0, 0]\<rparr>\<rparr>"

definition facing_triangle :: TriangleTensor where
  "facing_triangle =
     \<lparr>tri_centre = \<lparr>x = 0, y = 0, z = 2\<rparr>,
      tri_tensor = \<lparr>t_h = 3, t_w = 3, t_tensor = [0, 1, 0, 0, 0, 1, - 1, 0, 0]\<rparr>\<rparr>"

definition averted_triangle :: TriangleTensor where
  "averted_triangle =
     \<lparr>tri_centre = \<lparr>x = 0, y = 0, z = 2\<rparr>,
      tri_tensor = \<lparr>t_h = 3, t_w = 3, t_tensor = [0, 1, 0, 0, 0, - 1, 1, 0, 0]\<rparr>\<rparr>"

text \<open>A model of two such cameras, each a view of its own, with nothing occluded; and a
  model whose only view names no camera.\<close>

definition example_model :: "(unit, unit) TensorModel" where
  "example_model =
     \<lparr>cameras = [''a'' \<mapsto> example_camera_tensor, ''b'' \<mapsto> example_camera_tensor],
      views = (\<lambda>s. [[''a''], [''b'']]),
      occluded = (\<lambda>p c ts. False),
      scene_triangles = ()\<rparr>"

definition empty_view_model :: "(unit, unit) TensorModel" where
  "empty_view_model =
     \<lparr>cameras = [''a'' \<mapsto> example_camera_tensor],
      views = (\<lambda>s. [[]]),
      occluded = (\<lambda>p c ts. False),
      scene_triangles = ()\<rparr>"

text \<open>The vertices of an isosceles triangle whose centroid is the origin.\<close>

definition example_vertices :: "Point list" where
  "example_vertices =
     [\<lparr>x = 0, y = 10, z = 0\<rparr>, \<lparr>x = - 12, y = - 5, z = 0\<rparr>, \<lparr>x = 12, y = - 5, z = 0\<rparr>]"

section \<open>Properties\<close>

subsection \<open>Tensor construction\<close>

lemma init_rows_length:
  "init_rows wd rows vector = Inr v \<Longrightarrow> length v = length vector + length rows * wd"
  by (induction rows arbitrary: vector) (auto split: if_splits)

lemma Tensor_init_wf:
  "Tensor_init m = Inr T \<Longrightarrow> length (t_tensor T) = t_h T * t_w T"
  by (cases m)
     (auto simp: Tensor_init_def ebind_def split: if_splits sum.splits dest: init_rows_length)

subsection \<open>Tensor equality\<close>

lemma getitem_in_range:
  assumes "length (t_tensor T) = t_h T * t_w T" "i < t_h T" "j < t_w T"
  shows "getitem T (int i) (int j) = Inr (t_tensor T ! (i * t_w T + j))"
proof -
  have "i * t_w T + j < t_h T * t_w T"
  proof -
    have "i * t_w T + j < i * t_w T + t_w T" using assms(3) by simp
    also have "\<dots> = (Suc i) * t_w T" by simp
    also have "\<dots> \<le> t_h T * t_w T" using assms(2) by (intro mult_le_mono1) simp
    finally show ?thesis .
  qed
  moreover have "int i * int (t_w T) + int j = int (i * t_w T + j)" by simp
  ultimately show ?thesis
    using assms unfolding getitem_def array_getitem_def Let_def
    by (simp del: of_nat_add of_nat_mult)
qed

lemma richcmp_cols_eval:
  assumes "length (t_tensor A) = t_h A * t_w A" "length (t_tensor B) = t_h B * t_w B"
    "t_h A = t_h B" "t_w A = t_w B" "i < t_h A" "\<forall>j\<in>set js. j < t_w A"
  shows "richcmp_cols A B (int i) (map int js) eq =
     Inr (eq \<and> list_all (\<lambda>j. \<bar>t_tensor A ! (i * t_w A + j) - t_tensor B ! (i * t_w B + j)\<bar> \<le> 1 / 10 ^ 9) js)"
  using assms(6)
proof (induction js)
  case Nil
  then show ?case by simp
next
  case (Cons j js)
  have a: "getitem A (int i) (int j) = Inr (t_tensor A ! (i * t_w A + j))"
    using Cons.prems assms by (intro getitem_in_range) auto
  have b: "getitem B (int i) (int j) = Inr (t_tensor B ! (i * t_w B + j))"
    using Cons.prems assms by (intro getitem_in_range) auto
  show ?case using Cons by (simp add: a b ebind_def)
qed

lemma richcmp_rows_eval:
  assumes "length (t_tensor A) = t_h A * t_w A" "length (t_tensor B) = t_h B * t_w B"
    "t_h A = t_h B" "t_w A = t_w B" "\<forall>i\<in>set is. i < t_h A" "\<forall>j\<in>set js. j < t_w A"
  shows "richcmp_rows A B (map int is) (map int js) eq =
     Inr (eq \<and> list_all (\<lambda>i. list_all (\<lambda>j. \<bar>t_tensor A ! (i * t_w A + j) - t_tensor B ! (i * t_w B + j)\<bar> \<le> 1 / 10 ^ 9) js) is)"
  using assms(5)
proof (induction "is" arbitrary: eq)
  case Nil
  then show ?case by simp
next
  case (Cons i "is")
  have c: "richcmp_cols A B (int i) (map int js) eq =
     Inr (eq \<and> list_all (\<lambda>j. \<bar>t_tensor A ! (i * t_w A + j) - t_tensor B ! (i * t_w B + j)\<bar> \<le> 1 / 10 ^ 9) js)"
    using Cons.prems assms by (intro richcmp_cols_eval) auto
  show ?case using Cons by (auto simp add: c ebind_def)
qed

lemma richcmp_same_shape:
  assumes "length (t_tensor A) = t_h A * t_w A" "length (t_tensor B) = t_h B * t_w B"
    "size_of A = size_of B"
  shows "richcmp A B 2 = Inr (Some (close_everywhere A B))"
proof -
  have s: "t_h A = t_h B" "t_w A = t_w B" using assms(3) by (simp_all add: size_of_def)
  have "richcmp_rows A B (map int [0..<t_h A]) (map int [0..<t_w A]) True =
     Inr (True \<and> close_everywhere A B)"
    unfolding close_everywhere_def using assms(1,2) s by (intro richcmp_rows_eval) auto
  then show ?thesis using s by (simp add: richcmp_def size_of_def py_range_def ebind_def)
qed

lemma close_everywhere_refl: "close_everywhere A A"
  by (simp add: close_everywhere_def list_all_iff)

lemma close_everywhere_sym:
  "size_of A = size_of B \<Longrightarrow> close_everywhere A B = close_everywhere B A"
  by (simp add: close_everywhere_def size_of_def abs_minus_commute)

lemma close_everywhere_iff:
  "close_everywhere A B \<longleftrightarrow> (\<forall>i<t_h A. \<forall>j<t_w A.
      \<bar>t_tensor A ! (i * t_w A + j) - t_tensor B ! (i * t_w B + j)\<bar> \<le> 1 / 10 ^ 9)"
  by (auto simp add: close_everywhere_def list_all_iff)

text \<open>
  The method \<^verbatim>\<open>__richcmp__\<close> itself, called with the equality code 2 on two tensors that
  the constructor built: when the shapes agree it returns whether every pair of
  corresponding entries differs by at most \<^verbatim>\<open>1e-9\<close>, and the answer does not depend on
  the order of the operands; a tensor is equal to itself; when the shapes differ the
  assertion fails and no truth value is returned.
\<close>

lemma richcmp_equality:
  assumes "Tensor_init ma = Inr A" "Tensor_init mb = Inr B"
  shows "(size_of A = size_of B \<longrightarrow>
            richcmp A B 2 = Inr (Some (\<forall>i<t_h A. \<forall>j<t_w A.
               \<bar>t_tensor A ! (i * t_w A + j) - t_tensor B ! (i * t_w B + j)\<bar> \<le> 1 / 10 ^ 9)) \<and>
            richcmp A B 2 = richcmp B A 2)
         \<and> (size_of A \<noteq> size_of B \<longrightarrow> richcmp A B 2 = Inl AssertionError)
         \<and> richcmp A A 2 = Inr (Some True)"
proof -
  have wa: "length (t_tensor A) = t_h A * t_w A" using assms(1) by (rule Tensor_init_wf)
  have wb: "length (t_tensor B) = t_h B * t_w B" using assms(2) by (rule Tensor_init_wf)
  have refl: "richcmp A A 2 = Inr (Some True)"
    using richcmp_same_shape [OF wa wa] by (simp add: close_everywhere_refl)
  have differ: "richcmp A B 2 = Inl AssertionError" if "size_of A \<noteq> size_of B"
    using that by (auto simp add: richcmp_def size_of_def)
  have same: "richcmp A B 2 = Inr (Some (\<forall>i<t_h A. \<forall>j<t_w A.
               \<bar>t_tensor A ! (i * t_w A + j) - t_tensor B ! (i * t_w B + j)\<bar> \<le> 1 / 10 ^ 9))"
    and sym: "richcmp A B 2 = richcmp B A 2" if eq: "size_of A = size_of B"
  proof -
    show "richcmp A B 2 = Inr (Some (\<forall>i<t_h A. \<forall>j<t_w A.
               \<bar>t_tensor A ! (i * t_w A + j) - t_tensor B ! (i * t_w B + j)\<bar> \<le> 1 / 10 ^ 9))"
      using richcmp_same_shape [OF wa wb eq] by (simp only: close_everywhere_iff)
    show "richcmp A B 2 = richcmp B A 2"
      using richcmp_same_shape [OF wa wb eq] richcmp_same_shape [OF wb wa eq [symmetric]]
        close_everywhere_sym [OF eq] by simp
  qed
  show ?thesis using refl differ same sym by blast
qed

text \<open>
  Claim C6.  Equality of tensors should hold exactly when the shapes agree and all entries
  are within \<^verbatim>\<open>1e-9\<close>, and a comparison of different shapes should fail.  The method
  written for this is never reached by \<^verbatim>\<open>==\<close>: two distinct tensors with the same single
  entry compare unequal, although \<^verbatim>\<open>__richcmp__\<close> would answer \<^verbatim>\<open>True\<close>; and a 1x2 tensor
  compared with a 2x1 tensor gives \<^verbatim>\<open>False\<close> and no error, although \<^verbatim>\<open>__richcmp__\<close> would
  fail its assertion.
\<close>

theorem tensor_eq_is_identity:
  "Tensor_init (Rows [[1]]) = Inr \<lparr>t_h = 1, t_w = 1, t_tensor = [1]\<rparr>
   \<and> Tensor_eq \<lparr>obj_id = 1, obj_state = \<lparr>t_h = 1, t_w = 1, t_tensor = [1]\<rparr>\<rparr>
                \<lparr>obj_id = 2, obj_state = \<lparr>t_h = 1, t_w = 1, t_tensor = [1]\<rparr>\<rparr> = Inr False
   \<and> richcmp \<lparr>t_h = 1, t_w = 1, t_tensor = [1]\<rparr> \<lparr>t_h = 1, t_w = 1, t_tensor = [1]\<rparr> 2
       = Inr (Some True)
   \<and> Tensor_init (Rows [[1, 2]]) = Inr \<lparr>t_h = 1, t_w = 2, t_tensor = [1, 2]\<rparr>
   \<and> Tensor_init (Rows [[1], [2]]) = Inr \<lparr>t_h = 2, t_w = 1, t_tensor = [1, 2]\<rparr>
   \<and> Tensor_eq \<lparr>obj_id = 1, obj_state = \<lparr>t_h = 1, t_w = 2, t_tensor = [1, 2]\<rparr>\<rparr>
                \<lparr>obj_id = 2, obj_state = \<lparr>t_h = 2, t_w = 1, t_tensor = [1, 2]\<rparr>\<rparr> = Inr False
   \<and> richcmp \<lparr>t_h = 1, t_w = 2, t_tensor = [1, 2]\<rparr> \<lparr>t_h = 2, t_w = 1, t_tensor = [1, 2]\<rparr> 2
       = Inl AssertionError"
proof -
  have a: "Tensor_init (Rows [[1]]) = Inr \<lparr>t_h = 1, t_w = 1, t_tensor = [1]\<rparr>"
    by (simp add: Tensor_init_def ebind_def)
  have b: "Tensor_init (Rows [[1, 2]]) = Inr \<lparr>t_h = 1, t_w = 2, t_tensor = [1, 2]\<rparr>"
    by (simp add: Tensor_init_def ebind_def)
  have c: "Tensor_init (Rows [[1], [2]]) = Inr \<lparr>t_h = 2, t_w = 1, t_tensor = [1, 2]\<rparr>"
    by (simp add: Tensor_init_def ebind_def)
  have r1: "richcmp \<lparr>t_h = 1, t_w = 1, t_tensor = [1]\<rparr> \<lparr>t_h = 1, t_w = 1, t_tensor = [1]\<rparr> 2
       = Inr (Some True)"
    using richcmp_equality [OF a a] by simp
  have r2: "richcmp \<lparr>t_h = 1, t_w = 2, t_tensor = [1, 2]\<rparr> \<lparr>t_h = 2, t_w = 1, t_tensor = [1, 2]\<rparr> 2
       = Inl AssertionError"
    using richcmp_equality [OF b c] by (simp add: size_of_def)
  show ?thesis using a b c r1 r2 by (simp add: Tensor_eq_def)
qed

subsection \<open>Performance\<close>

lemma cache_getitem_member:
  "distinct (map fst c) \<Longrightarrow> (k, v) \<in> set c \<Longrightarrow> cache_getitem c k = Inr v"
  by (simp add: cache_getitem_def)

lemma performance_loop_sum:
  assumes "distinct (map fst c)"
  shows "set kvs \<subseteq> set c \<Longrightarrow> map snd kvs = map Fin vs \<Longrightarrow>
    performance_loop c (map fst kvs) (Fin a) d =
      Inr (Fin (a + sum_list vs), d + real (length vs))"
proof (induction kvs arbitrary: a d vs)
  case Nil
  then show ?case by simp
next
  case (Cons kv kvs)
  obtain k v where kv: "kv = (k, v)" by (cases kv)
  from Cons.prems(2) obtain w ws where vs: "vs = w # ws" and v: "v = Fin w"
    and rest: "map snd kvs = map Fin ws"
    by (cases vs) (auto simp: kv)
  have g: "cache_getitem c k = Inr (Fin w)"
    using assms Cons.prems(1) by (intro cache_getitem_member) (auto simp: kv v)
  have "performance_loop c (map fst kvs) (Fin (a + w)) (d + 1) =
      Inr (Fin ((a + w) + sum_list ws), (d + 1) + real (length ws))"
    using Cons.prems(1) rest by (intro Cons.IH) auto
  then show ?case by (simp add: kv vs g ebind_def add.assoc)
qed

lemma performance_of_cache:
  assumes "distinct (map fst c)" "c \<noteq> []" "map snd c = map Fin vs"
  shows "ebind (performance_loop c (map fst c) (Fin 0) 0) (\<lambda>(Fn, Fd). fdiv Fn Fd)
           = Inr (Fin (sum_list vs / real (length vs)))"
proof -
  have l: "length vs = length c" using assms(3) by (metis length_map)
  have "performance_loop c (map fst c) (Fin 0) 0 = Inr (Fin (0 + sum_list vs), 0 + real (length vs))"
    using assms by (intro performance_loop_sum) auto
  then show ?thesis using assms(2) l by (simp add: ebind_def fdiv_def)
qed

lemma setitem_keys: "fst ` set (setitem c k v) = insert k (fst ` set c)"
  by (induction c k v rule: setitem.induct) auto

lemma setitem_distinct: "distinct (map fst c) \<Longrightarrow> distinct (map fst (setitem c k v))"
proof (induction c k v rule: setitem.induct)
  case (1 k v)
  then show ?case by simp
next
  case (2 k' v' kvs k v)
  then show ?case
    using setitem_keys [of kvs k v] by (auto simp: image_iff)
qed

lemma coverage_loop_distinct:
  "distinct (map fst acc) \<Longrightarrow> coverage_loop M dp sub tris acc = Inr c \<Longrightarrow> distinct (map fst c)"
proof (induction tris arbitrary: acc)
  case Nil
  then show ?case by simp
next
  case (Cons t tris)
  then show ?case
    by (auto simp: ebind_def Let_def split: sum.splits dest: setitem_distinct)
qed

lemma coverage_distinct:
  "TensorModel_coverage M dp tris sub = Inr c \<Longrightarrow> distinct (map fst c)"
  unfolding TensorModel_coverage_def by (rule coverage_loop_distinct [of "[]"]) auto

text \<open>
  Claim C8.  \<^verbatim>\<open>TensorModel.performance\<close> returns the arithmetic mean of the cached
  strengths: when the cache it averages (the one given, if that is not empty; otherwise
  the one \<^verbatim>\<open>coverage(object, subset)\<close> computes) is the non-empty cache \<open>c\<close> with the
  finite values \<open>vs\<close>, the result is the sum of \<open>vs\<close> divided by their number.  On the
  cache of two points with the values 1.0 and 0.0 this is 0.5.
\<close>

theorem performance_is_mean:
  assumes "c \<noteq> []" "map snd c = map Fin vs"
    and "(given = Some c \<and> distinct (map fst c)) \<or>
         ((given = None \<or> given = Some []) \<and> TensorModel_coverage M dp tris sub = Inr c)"
  shows "TensorModel_performance M dp tris sub given = Inr (Fin (sum_list vs / real (length vs)))"
proof -
  have d: "distinct (map fst c)" using assms(3) coverage_distinct [of M dp tris sub c] by auto
  have m: "ebind (performance_loop c (map fst c) (Fin 0) 0) (\<lambda>(Fn, Fd). fdiv Fn Fd)
           = Inr (Fin (sum_list vs / real (length vs)))"
    using d assms(1,2) by (rule performance_of_cache)
  have "(case given of
              Some g \<Rightarrow> if g \<noteq> [] then Inr g
                        else TensorModel_coverage M dp tris sub
            | None \<Rightarrow> TensorModel_coverage M dp tris sub) = Inr c"
    using assms(1,3) by auto
  then show ?thesis unfolding TensorModel_performance_def using m by (simp add: ebind_def)
qed

theorem performance_is_mean_witness:
  "TensorModel_performance example_model (\<lambda>p a. (0::nat)) [] ()
     (Some [(1::nat, Fin 1), (2, Fin 0)]) = Inr (Fin (1 / 2))"
  using performance_is_mean [of "[(1::nat, Fin 1), (2, Fin 0)]" "[1, 0]"
      "Some [(1::nat, Fin 1), (2, Fin 0)]" example_model "\<lambda>p a. (0::nat)" "[]" "()"]
  by simp

text \<open>
  Claim C10.  When no non-empty cache is given and the computed coverage cache is empty
  (as it is for an object without triangles), \<^verbatim>\<open>TensorModel.performance\<close> divides
  \<^verbatim>\<open>0.0\<close> by \<^verbatim>\<open>0.0\<close> and fails with \<^verbatim>\<open>ZeroDivisionError\<close>; it returns no number.
\<close>

theorem performance_empty_cache:
  assumes "given = None \<or> given = Some []"
    and "TensorModel_coverage M dp tris sub = Inr []"
  shows "TensorModel_performance M dp tris sub given = Inl ZeroDivisionError"
  using assms by (auto simp: TensorModel_performance_def ebind_def fdiv_def)

lemma coverage_no_triangles: "TensorModel_coverage M dp [] sub = Inr []"
  by (simp add: TensorModel_coverage_def)

theorem performance_empty_cache_witness:
  "TensorModel_performance example_model (\<lambda>p a. (0::nat)) [] () None = Inl ZeroDivisionError
   \<and> TensorModel_performance example_model (\<lambda>p a. (0::nat)) [] () (Some []) =
       Inl ZeroDivisionError"
  using performance_empty_cache [of None example_model "\<lambda>p a. (0::nat)" "[]" "()"]
    performance_empty_cache [of "Some []" example_model "\<lambda>p a. (0::nat)" "[]" "()"]
  by (simp add: coverage_no_triangles)

subsection \<open>Construction of camera tensors\<close>

lemma example_matrix:
  "CameraTensor_get_tensor_matrix (\<lambda>tp. example_hull) identity_pose tp =
     Inr (\<lparr>x = 0, y = 0, z = 2\<rparr>, [[0, 0, - 2], [0, 2, 0], [1, 0, 0]])"
  by (simp add: CameraTensor_get_tensor_matrix_def example_hull_def identity_pose_def
      avg_points_def list_get_def ebind_def Point_sub_def Let_def)

lemma example_camera:
  "snd (CameraTensor_init (\<lambda>tp. example_hull) identity_pose tp st) =
     Inr \<lparr>task_params = defaults, frustum_centre = \<lparr>x = 0, y = 0, z = 2\<rparr>,
          cam_tensor = \<lparr>t_h = 3, t_w = 3, t_tensor = [0, 0, - 2, 0, 2, 0, 1, 0, 0]\<rparr>\<rparr>"
  by (simp add: CameraTensor_init_def example_matrix Tensor_init_def ebind_def Let_def)

text \<open>
  Claim C9.  The constructor does not copy the defaults: it binds the instance's
  \<^verbatim>\<open>task_params\<close> to the dictionary of the class attribute and writes the caller's
  entries into that dictionary.  After a construction that overrides key \<open>k\<close> with \<open>v\<close>,
  the shared dictionary holds \<open>v\<close> at \<open>k\<close>, and a camera constructed afterwards without
  \<open>k\<close> reads \<open>v\<close> through its own \<^verbatim>\<open>task_params\<close>, whatever the documented default was.
\<close>

theorem defaults_are_shared:
  assumes "tp1 k = Some v" "tp2 k = None"
  shows "(let i1 = CameraTensor_init gen1 pose1 tp1 st;
              i2 = CameraTensor_init gen2 pose2 tp2 (fst i1)
          in fst i1 defaults = st defaults ++ tp1
             \<and> fst i1 defaults k = Some v
             \<and> fst i2 defaults k = Some v
             \<and> (\<forall>c1. snd i1 = Inr c1 \<longrightarrow> task_params c1 = defaults)
             \<and> (\<forall>c2. snd i2 = Inr c2 \<longrightarrow>
                    task_params c2 = defaults \<and> fst i2 (task_params c2) k = Some v))"
  using assms
  by (auto simp: CameraTensor_init_def Let_def ebind_def map_add_def
      split: sum.splits prod.splits option.splits)

theorem defaults_are_shared_witness:
  "(let i1 = CameraTensor_init (\<lambda>tp. example_hull) identity_pose
               [''ocular'' \<mapsto> Num (Fin 2)] initial_store;
        i2 = CameraTensor_init (\<lambda>tp. example_hull) identity_pose Map.empty (fst i1)
    in (\<exists>c2. snd i2 = Inr c2 \<and> fst i2 (task_params c2) ''ocular'' = Some (Num (Fin 2)))
       \<and> documented_defaults ''ocular'' = Some (Num (Fin 1)))"
proof -
  have d: "documented_defaults ''ocular'' = Some (Num (Fin 1))"
    by (simp add: documented_defaults_def)
  show ?thesis
    using defaults_are_shared [of "[''ocular'' \<mapsto> Num (Fin 2)]" "''ocular''" "Num (Fin 2)"
        Map.empty "\<lambda>tp. example_hull" identity_pose initial_store "\<lambda>tp. example_hull" identity_pose]
    by (simp add: Let_def example_camera d)
qed

subsection \<open>Strength of one camera\<close>

lemma Tensor_init_3x3:
  "Tensor_init (Rows [[a, b, c], [d, e, f], [g, h, i]]) = Inr T \<Longrightarrow> is_3x3 T"
  by (auto simp: Tensor_init_def ebind_def is_3x3_def)

lemma CameraTensor_init_3x3:
  assumes "snd (CameraTensor_init gen pose tp st) = Inr c"
  shows "is_3x3 (cam_tensor c)"
proof -
  obtain ctr m where g: "CameraTensor_get_tensor_matrix gen pose ((fst (CameraTensor_init gen pose tp st)) defaults) = Inr (ctr, m)"
    and t: "Tensor_init (Rows m) = Inr (cam_tensor c)"
    using assms by (auto simp: CameraTensor_init_def Let_def ebind_def split: sum.splits)
  from g obtain a b c' d e f g' h i where "m = [[a, b, c'], [d, e, f], [g', h, i]]"
    by (auto simp: CameraTensor_get_tensor_matrix_def Let_def ebind_def split: sum.splits if_splits)
  then show ?thesis using t Tensor_init_3x3 by blast
qed

lemma TriangleTensor_init_3x3:
  assumes "TriangleTensor_init vertices pose = Inr t"
  shows "is_3x3 (tri_tensor t)"
proof -
  obtain ctr m where g: "TriangleTensor_get_tensor_matrix pose vertices = Inr (ctr, m)"
    and t: "Tensor_init (Rows m) = Inr (tri_tensor t)"
    using assms by (auto simp: TriangleTensor_init_def ebind_def split: sum.splits)
  from g obtain a b c' d e f g' h i where "m = [[a, b, c'], [d, e, f], [g', h, i]]"
    by (auto simp: TriangleTensor_get_tensor_matrix_def Let_def ebind_def split: sum.splits)
  then show ?thesis using t Tensor_init_3x3 by blast
qed

lemma getitem_3x3:
  assumes "is_3x3 T" "i < 3" "j < 3"
  shows "getitem T (int i) (int j) = Inr (t_tensor T ! (i * 3 + j))"
  using getitem_in_range [of T i j] assms by (simp add: is_3x3_def)

lemma column_3x3:
  assumes "is_3x3 T" "j < 3"
  shows "column T (int j) =
     Inr \<lparr>x = t_tensor T ! j, y = t_tensor T ! (3 + j), z = t_tensor T ! (6 + j)\<rparr>"
  using getitem_3x3 [OF assms(1), of 0 j] getitem_3x3 [OF assms(1), of 1 j]
    getitem_3x3 [OF assms(1), of 2 j] assms(2)
  by (simp add: column_def ebind_def)

lemma column0_3x3:
  "is_3x3 T \<Longrightarrow> column T 0 =
     Inr \<lparr>x = t_tensor T ! 0, y = t_tensor T ! 3, z = t_tensor T ! 6\<rparr>"
  using column_3x3 [of T 0] by simp

lemma column1_3x3:
  "is_3x3 T \<Longrightarrow> column T 1 =
     Inr \<lparr>x = t_tensor T ! 1, y = t_tensor T ! 4, z = t_tensor T ! 7\<rparr>"
  using column_3x3 [of T 1] by simp

lemma column2_3x3:
  "is_3x3 T \<Longrightarrow> column T 2 =
     Inr \<lparr>x = t_tensor T ! 2, y = t_tensor T ! 5, z = t_tensor T ! 8\<rparr>"
  using column_3x3 [of T 2] by simp

lemma magnitude_nonneg: "0 \<le> magnitude p"
  by (simp add: magnitude_def)

lemma magnitude_zero_iff: "magnitude p = 0 \<longleftrightarrow> x p = 0 \<and> y p = 0 \<and> z p = 0"
  by (simp add: magnitude_def sum_power2_eq_zero_iff add_nonneg_eq_0_iff)

lemma Point_unit_defined:
  "magnitude p \<noteq> 0 \<Longrightarrow>
     Point_unit p = Inr \<lparr>x = x p / magnitude p, y = y p / magnitude p, z = z p / magnitude p\<rparr>"
  by (simp add: Point_unit_def Let_def)

lemma euclidean_nonneg: "0 \<le> euclidean p q"
  by (simp add: euclidean_def)

lemma schatten_3x3:
  "is_3x3 T \<Longrightarrow> \<exists>s. schatten T = Inr s \<and> 0 \<le> s"
  by (simp add: schatten_def column0_3x3 column1_3x3 column2_3x3 ebind_def)

lemma strength_formula_bounds:
  fixes e r s :: real
  assumes "0 \<le> e" "0 \<le> r" "s \<noteq> 0"
  shows "0 \<le> sqrt (max 0 (1 - e / s\<^sup>2) * max 0 (1 - r / sqrt 2))"
    and "sqrt (max 0 (1 - e / s\<^sup>2) * max 0 (1 - r / sqrt 2)) \<le> 1"
proof -
  have a: "0 \<le> max 0 (1 - e / s\<^sup>2)" "max 0 (1 - e / s\<^sup>2) \<le> 1"
    using assms by simp_all
  have b: "0 \<le> max 0 (1 - r / sqrt 2)" "max 0 (1 - r / sqrt 2) \<le> 1"
    using assms by simp_all
  show "0 \<le> sqrt (max 0 (1 - e / s\<^sup>2) * max 0 (1 - r / sqrt 2))"
    using a(1) b(1) by simp
  have "max 0 (1 - e / s\<^sup>2) * max 0 (1 - r / sqrt 2) \<le> 1"
    using a b by (intro mult_le_one) auto
  then show "sqrt (max 0 (1 - e / s\<^sup>2) * max 0 (1 - r / sqrt 2)) \<le> 1"
    by simp
qed

text \<open>
  Claim C2.  For a camera tensor and a triangle tensor of shape 3x3, where the camera's
  Schatten norm is not zero and neither first column is the zero vector,
  \<^verbatim>\<open>CameraTensor.strength\<close> returns the square root of the product of the two floored
  factors, \<open>max 0 (1 - euclidean(centre, triangle.centre) / schatten()\<^sup>2)\<close> and
  \<open>max 0 (1 - euclidean(axis.unit(), -triangle.axis.unit()) / sqrt 2)\<close>; the value lies
  between 0 and 1, and it is 0 when a floored factor is 0.
\<close>

theorem camera_strength_formula:
  assumes "is_3x3 (cam_tensor cam)" "is_3x3 (tri_tensor tri)"
    and "schatten (cam_tensor cam) \<noteq> Inr 0"
    and "CameraTensor_axis cam \<noteq> Inr \<lparr>x = 0, y = 0, z = 0\<rparr>"
    and "TriangleTensor_axis tri \<noteq> Inr \<lparr>x = 0, y = 0, z = 0\<rparr>"
  shows "\<exists>s a au ta tau de dr.
           schatten (cam_tensor cam) = Inr s \<and>
           CameraTensor_axis cam = Inr a \<and> Point_unit a = Inr au \<and>
           TriangleTensor_axis tri = Inr ta \<and> Point_unit ta = Inr tau \<and>
           de = max 0 (1 - euclidean (CameraTensor_centre cam) (TriangleTensor_centre tri) / s\<^sup>2) \<and>
           dr = max 0 (1 - euclidean au (Point_neg tau) / sqrt 2) \<and>
           CameraTensor_strength cam tri = Inr (sqrt (de * dr)) \<and>
           0 \<le> sqrt (de * dr) \<and> sqrt (de * dr) \<le> 1 \<and>
           (de = 0 \<or> dr = 0 \<longrightarrow> CameraTensor_strength cam tri = Inr 0)"
proof -
  obtain s where s: "schatten (cam_tensor cam) = Inr s" "0 \<le> s"
    using schatten_3x3 [OF assms(1)] by blast
  have s0: "s \<noteq> 0" using assms(3) s by auto
  obtain a where a: "CameraTensor_axis cam = Inr a"
    using column0_3x3 [OF assms(1)] by (simp add: CameraTensor_axis_def)
  obtain ta where ta: "TriangleTensor_axis tri = Inr ta"
    using column0_3x3 [OF assms(2)] by (simp add: TriangleTensor_axis_def)
  have "a \<noteq> \<lparr>x = 0, y = 0, z = 0\<rparr>" using assms(4) a by auto
  then have ma: "magnitude a \<noteq> 0" by (cases a) (simp add: magnitude_zero_iff)
  have "ta \<noteq> \<lparr>x = 0, y = 0, z = 0\<rparr>" using assms(5) ta by auto
  then have mta: "magnitude ta \<noteq> 0" by (cases ta) (simp add: magnitude_zero_iff)
  define au where "au = \<lparr>x = x a / magnitude a, y = y a / magnitude a, z = z a / magnitude a\<rparr>"
  define tau where "tau = \<lparr>x = x ta / magnitude ta, y = y ta / magnitude ta, z = z ta / magnitude ta\<rparr>"
  have au: "Point_unit a = Inr au" unfolding au_def using ma by (rule Point_unit_defined)
  have tau: "Point_unit ta = Inr tau" unfolding tau_def using mta by (rule Point_unit_defined)
  define de where "de = max 0 (1 - euclidean (CameraTensor_centre cam) (TriangleTensor_centre tri) / s\<^sup>2)"
  define dr where "dr = max 0 (1 - euclidean au (Point_neg tau) / sqrt 2)"
  have str: "CameraTensor_strength cam tri = Inr (sqrt (de * dr))"
    using s0 by (simp add: CameraTensor_strength_def s a ta au tau ebind_def Let_def de_def dr_def max_def)
  have lo: "0 \<le> sqrt (de * dr)" and hi: "sqrt (de * dr) \<le> 1"
    unfolding de_def dr_def using strength_formula_bounds [OF euclidean_nonneg euclidean_nonneg s0]
    by blast+
  have z: "de = 0 \<or> dr = 0 \<longrightarrow> CameraTensor_strength cam tri = Inr 0"
    using str by auto
  show ?thesis using s(1) a au ta tau str lo hi z de_def dr_def by blast
qed

lemma example_camera_facts:
  "is_3x3 (cam_tensor example_camera_tensor)"
  "schatten (cam_tensor example_camera_tensor) = Inr 3"
  "CameraTensor_axis example_camera_tensor = Inr \<lparr>x = 0, y = 0, z = 1\<rparr>"
proof -
  show i: "is_3x3 (cam_tensor example_camera_tensor)"
    by (simp add: is_3x3_def example_camera_tensor_def)
  have c0: "column (cam_tensor example_camera_tensor) 0 = Inr \<lparr>x = 0, y = 0, z = 1\<rparr>"
    unfolding column0_3x3 [OF i] by (simp add: example_camera_tensor_def)
  have c1: "column (cam_tensor example_camera_tensor) 1 = Inr \<lparr>x = 0, y = 2, z = 0\<rparr>"
    unfolding column1_3x3 [OF i] by (simp add: example_camera_tensor_def)
  have c2: "column (cam_tensor example_camera_tensor) 2 = Inr \<lparr>x = - 2, y = 0, z = 0\<rparr>"
    unfolding column2_3x3 [OF i] by (simp add: example_camera_tensor_def)
  have "sqrt (1 + 4 + 4) = sqrt (3\<^sup>2)" by simp
  then have "sqrt (1 + 4 + 4) = 3" by simp
  then show "schatten (cam_tensor example_camera_tensor) = Inr 3"
    by (simp add: schatten_def c0 c1 c2 ebind_def magnitude_def)
  show "CameraTensor_axis example_camera_tensor = Inr \<lparr>x = 0, y = 0, z = 1\<rparr>"
    unfolding CameraTensor_axis_def column0_3x3 [OF i] by (simp add: example_camera_tensor_def)
qed

lemma facing_triangle_facts:
  "is_3x3 (tri_tensor facing_triangle)"
  "TriangleTensor_axis facing_triangle = Inr \<lparr>x = 0, y = 0, z = - 1\<rparr>"
proof -
  show i: "is_3x3 (tri_tensor facing_triangle)"
    by (simp add: is_3x3_def facing_triangle_def)
  show "TriangleTensor_axis facing_triangle = Inr \<lparr>x = 0, y = 0, z = - 1\<rparr>"
    unfolding TriangleTensor_axis_def column0_3x3 [OF i] by (simp add: facing_triangle_def)
qed

lemma averted_triangle_facts:
  "is_3x3 (tri_tensor averted_triangle)"
  "TriangleTensor_axis averted_triangle = Inr \<lparr>x = 0, y = 0, z = 1\<rparr>"
proof -
  show i: "is_3x3 (tri_tensor averted_triangle)"
    by (simp add: is_3x3_def averted_triangle_def)
  show "TriangleTensor_axis averted_triangle = Inr \<lparr>x = 0, y = 0, z = 1\<rparr>"
    unfolding TriangleTensor_axis_def column0_3x3 [OF i] by (simp add: averted_triangle_def)
qed

lemma unit_up: "Point_unit \<lparr>x = 0, y = 0, z = 1\<rparr> = Inr \<lparr>x = 0, y = 0, z = 1\<rparr>"
  by (simp add: Point_unit_def magnitude_def)

lemma unit_down: "Point_unit \<lparr>x = 0, y = 0, z = - 1\<rparr> = Inr \<lparr>x = 0, y = 0, z = - 1\<rparr>"
  by (simp add: Point_unit_def magnitude_def)

theorem camera_strength_formula_witness:
  "CameraTensor_strength example_camera_tensor facing_triangle = Inr 1
   \<and> CameraTensor_strength example_camera_tensor averted_triangle = Inr 0"
proof -
  have c: "CameraTensor_centre example_camera_tensor = \<lparr>x = 0, y = 0, z = 2\<rparr>"
    "TriangleTensor_centre facing_triangle = \<lparr>x = 0, y = 0, z = 2\<rparr>"
    "TriangleTensor_centre averted_triangle = \<lparr>x = 0, y = 0, z = 2\<rparr>"
    by (simp_all add: CameraTensor_centre_def TriangleTensor_centre_def
        example_camera_tensor_def facing_triangle_def averted_triangle_def)
  have sq: "sqrt 2 < 2"
    using real_sqrt_less_iff [of 2 4] by simp
  have e1: "euclidean \<lparr>x = 0, y = 0, z = 1\<rparr> (Point_neg \<lparr>x = 0, y = 0, z = - 1\<rparr>) = 0"
    by (simp add: euclidean_def Point_neg_def)
  have "sqrt ((2::real)\<^sup>2) = 2" by simp
  then have e2: "euclidean \<lparr>x = 0, y = 0, z = 1\<rparr> (Point_neg \<lparr>x = 0, y = 0, z = 1\<rparr>) = 2"
    by (simp add: euclidean_def Point_neg_def power2_eq_square)
  have e0: "euclidean \<lparr>x = 0, y = 0, z = 2\<rparr> \<lparr>x = 0, y = 0, z = 2\<rparr> = 0"
    by (simp add: euclidean_def)
  have m: "max 0 (1 - 2 / sqrt 2) = 0" using sq by (simp add: max_def)
  have "CameraTensor_strength example_camera_tensor facing_triangle = Inr 1"
    using camera_strength_formula [of example_camera_tensor facing_triangle]
    by (auto simp: example_camera_facts facing_triangle_facts unit_up unit_down c e0 e1)
  moreover have "CameraTensor_strength example_camera_tensor averted_triangle = Inr 0"
    using camera_strength_formula [of example_camera_tensor averted_triangle]
    by (auto simp: example_camera_facts averted_triangle_facts unit_up c e0 e2 m)
  ultimately show ?thesis by simp
qed

subsection \<open>Aggregation over views\<close>

lemma floor_zero_max: "(if r < 0 then 0 else r) = max 0 (r::real)"
  by (simp add: max_def not_less)

lemma CameraTensor_strength_range:
  assumes "CameraTensor_strength cam tri = Inr s"
  shows "0 \<le> s \<and> s \<le> 1"
proof -
  note d = CameraTensor_strength_def ebind_def Let_def
  obtain sa where sa: "CameraTensor_axis cam = Inr sa"
    using assms by (cases "CameraTensor_axis cam") (simp_all add: d)
  obtain sau where sau: "Point_unit sa = Inr sau"
    using assms sa by (cases "Point_unit sa") (simp_all add: d)
  obtain ta where ta: "TriangleTensor_axis tri = Inr ta"
    using assms sa sau by (cases "TriangleTensor_axis tri") (simp_all add: d)
  obtain tau where tau: "Point_unit ta = Inr tau"
    using assms sa sau ta by (cases "Point_unit ta") (simp_all add: d)
  obtain n where n: "schatten (cam_tensor cam) = Inr n"
    using assms sa sau ta tau by (cases "schatten (cam_tensor cam)") (simp_all add: d)
  have n0: "n \<noteq> 0"
    using assms sa sau ta tau n by (auto simp: d split: if_splits)
  have "CameraTensor_strength cam tri =
      Inr (sqrt (max 0 (1 - euclidean (CameraTensor_centre cam) (TriangleTensor_centre tri) / n\<^sup>2)
                  * max 0 (1 - euclidean sau (Point_neg tau) / sqrt 2)))"
    unfolding d sa sau ta tau n floor_zero_max using n0 by (simp add: sau tau)
  then have "s = sqrt (max 0 (1 - euclidean (CameraTensor_centre cam) (TriangleTensor_centre tri) / n\<^sup>2)
                  * max 0 (1 - euclidean sau (Point_neg tau) / sqrt 2))"
    using assms by simp
  then show ?thesis
    using strength_formula_bounds [OF euclidean_nonneg euclidean_nonneg n0] by simp
qed

lemma Min_insert_absorb:
  fixes a b :: real
  assumes "finite S" "a \<le> b"
  shows "Min (insert a (insert b S)) = Min (insert a S)"
proof (cases "S = {}")
  case True
  then show ?thesis using assms(2) by (simp add: min_def)
next
  case False
  have 1: "Min (insert a (insert b S)) = min a (min b (Min S))"
    using assms(1) False by simp
  have 2: "Min (insert a S) = min a (Min S)"
    using assms(1) False by simp
  show ?thesis unfolding 1 2 using assms(2) by (simp add: min_def)
qed

lemma view_loop_value:
  assumes "\<forall>c\<in>set view. \<exists>cam. cameras M c = Some cam \<and> CameraTensor_strength cam tri = Inr (sv c)"
  shows "snd (view_loop M tri tset view m tr) =
     Inr (if \<exists>c\<in>set view. sv c = 0 \<or> occluded M (TriangleTensor_centre tri) c tset then Fin 0
          else case m of
                 Fin a \<Rightarrow> Fin (Min (insert a (sv ` set view)))
               | PInf \<Rightarrow> if view = [] then PInf else Fin (Min (sv ` set view)))"
  using assms
proof (induction view arbitrary: m tr)
  case Nil
  then show ?case by (simp split: pyfloat.splits)
next
  case (Cons c rest)
  from Cons.prems obtain cam where cam: "cameras M c = Some cam"
    "CameraTensor_strength cam tri = Inr (sv c)" by auto
  have rest: "\<forall>c\<in>set rest. \<exists>cam. cameras M c = Some cam \<and> CameraTensor_strength cam tri = Inr (sv c)"
    using Cons.prems by simp
  note IH = Cons.IH [OF rest]
  show ?case
  proof (cases "sv c = 0 \<or> occluded M (TriangleTensor_centre tri) c tset")
    case True
    then show ?thesis by (auto simp: cam)
  next
    case False
    show ?thesis
    proof (cases m)
      case (Fin a)
      show ?thesis
      proof (cases "sv c < a")
        case True
        then have "Min (insert (sv c) (sv ` set rest)) = Min (insert a (insert (sv c) (sv ` set rest)))"
          using Min_insert_absorb [of "sv ` set rest" "sv c" a] by (simp add: insert_commute)
        then show ?thesis using False True Fin by (simp add: cam IH)
      next
        case ge: False
        then have "Min (insert a (sv ` set rest)) = Min (insert a (insert (sv c) (sv ` set rest)))"
          using Min_insert_absorb [of "sv ` set rest" a "sv c"] by simp
        then show ?thesis using False ge Fin by (simp add: cam IH)
      qed
    next
      case PInf
      then show ?thesis using False by (simp add: cam IH)
    qed
  qed
qed


lemma view_strength_range:
  assumes "view \<noteq> []" "\<forall>c\<in>set view. 0 \<le> sv c \<and> sv c \<le> 1"
  shows "0 \<le> view_strength sv occ view \<and> view_strength sv occ view \<le> 1"
proof (cases "\<exists>c\<in>set view. sv c = 0 \<or> occ c")
  case True
  then show ?thesis by (simp add: view_strength_def)
next
  case False
  have ne: "sv ` set view \<noteq> {}" using assms(1) by simp
  have "Min (sv ` set view) \<in> sv ` set view" using ne by (intro Min_in) auto
  then show ?thesis using False assms(2) by (auto simp: view_strength_def)
qed

lemma view_loop_nonempty:
  assumes "\<forall>c\<in>set view. \<exists>cam. cameras M c = Some cam \<and> CameraTensor_strength cam tri = Inr (sv c)"
    and "view \<noteq> []"
  shows "snd (view_loop M tri tset view PInf tr) =
     Inr (Fin (view_strength sv (\<lambda>c. occluded M (TriangleTensor_centre tri) c tset) view))"
  using view_loop_value [OF assms(1), of tset PInf tr] assms(2)
  by (simp add: view_strength_def)

lemma views_loop_value:
  assumes "\<forall>v\<in>set vs. \<forall>c\<in>set v. \<exists>cam. cameras M c = Some cam \<and> CameraTensor_strength cam tri = Inr (sv c)"
    and "\<forall>v\<in>set vs. v \<noteq> []"
    and "a \<le> 1"
  shows "snd (views_loop M tri tset vs (Fin a) tr) =
     Inr (Fin (Max (insert a (view_strength sv (\<lambda>c. occluded M (TriangleTensor_centre tri) c tset) ` set vs))))"
  using assms
proof (induction vs arbitrary: a tr)
  case Nil
  then show ?case by simp
next
  case (Cons v vs)
  let ?occ = "\<lambda>c. occluded M (TriangleTensor_centre tri) c tset"
  let ?w = "view_strength sv ?occ v"
  have dv: "\<forall>c\<in>set v. \<exists>cam. cameras M c = Some cam \<and> CameraTensor_strength cam tri = Inr (sv c)"
    and ne: "v \<noteq> []" using Cons.prems by simp_all
  have "\<forall>c\<in>set v. 0 \<le> sv c \<and> sv c \<le> 1"
    using dv CameraTensor_strength_range by blast
  then have w: "0 \<le> ?w" "?w \<le> 1" using view_strength_range [OF ne] by blast+
  obtain tr' where vl: "view_loop M tri tset v PInf tr = (tr', Inr (Fin ?w))"
    using view_loop_nonempty [OF dv ne, of tset tr] by (cases "view_loop M tri tset v PInf tr") simp
  have fm: "fmax (Fin a) (Fin ?w) = Fin (max a ?w)"
    by (simp add: fmax_def max_def)
  have rest_le: "\<forall>u\<in>view_strength sv ?occ ` set vs. u \<le> 1"
  proof
    fix u assume "u \<in> view_strength sv ?occ ` set vs"
    then obtain v' where v': "v' \<in> set vs" "u = view_strength sv ?occ v'" by auto
    have "\<forall>c\<in>set v'. 0 \<le> sv c \<and> sv c \<le> 1"
      using Cons.prems(1) v'(1) CameraTensor_strength_range by (metis list.set_intros(2))
    moreover have "v' \<noteq> []" using Cons.prems(2) v'(1) by simp
    ultimately show "u \<le> 1" using view_strength_range v'(2) by blast
  qed
  show ?case
  proof (cases "max a ?w = 1")
    case True
    have "Max (insert a (insert ?w (view_strength sv ?occ ` set vs))) = 1"
    proof (rule Max_eqI)
      show "finite (insert a (insert ?w (view_strength sv ?occ ` set vs)))" by simp
      show "u \<le> 1" if "u \<in> insert a (insert ?w (view_strength sv ?occ ` set vs))" for u
        using that Cons.prems(3) w(2) rest_le by auto
      show "1 \<in> insert a (insert ?w (view_strength sv ?occ ` set vs))"
        using True by (auto simp: max_def split: if_splits)
    qed
    then show ?thesis using True by (simp add: vl fm)
  next
    case False
    have le: "max a ?w \<le> 1" using Cons.prems(3) w(2) by simp
    have IH: "snd (views_loop M tri tset vs (Fin (max a ?w)) tr') =
      Inr (Fin (Max (insert (max a ?w) (view_strength sv ?occ ` set vs))))"
      using Cons.prems(1,2) le by (intro Cons.IH) auto
    have "Max (insert (max a ?w) (view_strength sv ?occ ` set vs)) =
          Max (insert a (insert ?w (view_strength sv ?occ ` set vs)))"
    proof (cases "set vs = {}")
      case True
      then show ?thesis by simp
    next
      case ne': False
      then show ?thesis by (simp add: max.assoc)
    qed
    then show ?thesis using False by (simp add: vl fm IH)
  qed
qed


lemma view_loop_occluded_calls:
  assumes "Occluded_call c \<in> set (fst (view_loop M tri tset view m tr))"
  shows "Occluded_call c \<in> set tr \<or>
         (\<exists>cam s. cameras M c = Some cam \<and> CameraTensor_strength cam tri = Inr s \<and> s \<noteq> 0)"
  using assms
proof (induction view arbitrary: m tr)
  case Nil
  then show ?case by simp
next
  case (Cons c' rest)
  show ?case
  proof (cases "cameras M c'")
    case None
    then show ?thesis using Cons.prems by simp
  next
    case (Some cam)
    show ?thesis
    proof (cases "CameraTensor_strength cam tri")
      case (Inl e)
      then show ?thesis using Cons.prems Some by simp
    next
      case (Inr s)
      show ?thesis
      proof (cases "s = 0")
        case True
        then show ?thesis using Cons.prems Some Inr by simp
      next
        case False
        have here: "cameras M c' = Some cam \<and> CameraTensor_strength cam tri = Inr s \<and> s \<noteq> 0"
          using Some Inr False by simp
        show ?thesis
        proof (cases "occluded M (TriangleTensor_centre tri) c' tset")
          case True
          then have "Occluded_call c \<in> set (tr @ [Strength_call c', Occluded_call c'])"
            using Cons.prems Some Inr False by simp
          then show ?thesis using here by auto
        next
          case nocc: False
          define m' where "m' = (if fless (Fin s) m then Fin s else m)"
          have "view_loop M tri tset (c' # rest) m tr =
                view_loop M tri tset rest m' (tr @ [Strength_call c', Occluded_call c'])"
            using Some Inr False nocc by (simp add: m'_def)
          then have "Occluded_call c \<in> set (fst (view_loop M tri tset rest m'
                       (tr @ [Strength_call c', Occluded_call c'])))"
            using Cons.prems by simp
          then have "Occluded_call c \<in> set (tr @ [Strength_call c', Occluded_call c']) \<or>
              (\<exists>cam s. cameras M c = Some cam \<and> CameraTensor_strength cam tri = Inr s \<and> s \<noteq> 0)"
            by (rule Cons.IH)
          then show ?thesis using here by auto
        qed
      qed
    qed
  qed
qed

lemma views_loop_occluded_calls:
  assumes "Occluded_call c \<in> set (fst (views_loop M tri tset vs mx tr))"
  shows "Occluded_call c \<in> set tr \<or>
         (\<exists>cam s. cameras M c = Some cam \<and> CameraTensor_strength cam tri = Inr s \<and> s \<noteq> 0)"
  using assms
proof (induction vs arbitrary: mx tr)
  case Nil
  then show ?case by simp
next
  case (Cons v vs)
  obtain tr' r where vl: "view_loop M tri tset v PInf tr = (tr', r)"
    by (cases "view_loop M tri tset v PInf tr")
  have step: "Occluded_call c \<in> set tr' \<Longrightarrow> ?case"
    using view_loop_occluded_calls [of c M tri tset v PInf tr] vl by simp
  show ?case
  proof (cases r)
    case (Inl e)
    then show ?thesis using Cons.prems vl step by simp
  next
    case (Inr mn)
    show ?thesis
    proof (cases "fmax mx mn = Fin 1")
      case True
      then show ?thesis using Cons.prems vl Inr step by simp
    next
      case False
      then have "Occluded_call c \<in> set (fst (views_loop M tri tset vs (fmax mx mn) tr'))"
        using Cons.prems vl Inr by simp
      then show ?thesis using Cons.IH step by blast
    qed
  qed
qed

lemma view_loop_break:
  assumes "cameras M c = Some cam" "CameraTensor_strength cam tri = Inr s"
    and "s = 0 \<or> occluded M (TriangleTensor_centre tri) c tset"
  shows "view_loop M tri tset (pre @ c # post) m tr = view_loop M tri tset (pre @ [c]) m tr"
proof (induction pre arbitrary: m tr)
  case Nil
  then show ?case using assms by auto
next
  case (Cons p pre)
  then show ?case by (simp split: option.splits sum.splits)
qed

lemma views_loop_stop:
  assumes "views_loop M tri tset (pre @ [v]) mx tr = (tr', Inr (Fin 1))"
  shows "views_loop M tri tset (pre @ v # post) mx tr = (tr', Inr (Fin 1))"
  using assms
proof (induction pre arbitrary: mx tr)
  case Nil
  then show ?case
    by (auto simp: Let_def split: prod.splits sum.splits if_splits)
next
  case (Cons p pre)
  then show ?case
    by (auto simp: Let_def split: prod.splits sum.splits if_splits)
qed

text \<open>
  Claim C1.  \<^verbatim>\<open>TensorModel.strength\<close> computes the maximum over the views of the minimum
  over each view's cameras.  When every camera named in a view is in the model with the
  strength \<open>sv c\<close>, and every view names at least one camera (as the comment in the loop
  assumes), the result is the greatest of 0 and the views' values, where a view's value is
  0 if one of its cameras has strength 0 or is occluded and the least strength otherwise.
  With no views the result is 0.0.  The occlusion test runs only for cameras whose
  strength is not zero.  A camera of strength 0, or an occluded one, ends its view: the
  cameras after it are not evaluated.  Once the maximum is exactly 1.0 the remaining views
  are not evaluated.
\<close>

theorem strength_aggregation:
  assumes "\<forall>v\<in>set (views M sub). \<forall>c\<in>set v.
             \<exists>cam. cameras M c = Some cam \<and> CameraTensor_strength cam tri = Inr (sv c)"
    and "\<forall>v\<in>set (views M sub). v \<noteq> []"
  shows "snd (TensorModel_strength M tri tset sub) =
           Inr (Fin (Max (insert 0
             (view_strength sv (\<lambda>c. occluded M (TriangleTensor_centre tri) c tset)
                ` set (views M sub)))))
         \<and> (views M sub = [] \<longrightarrow> TensorModel_strength M tri tset sub = ([], Inr (Fin 0)))
         \<and> (\<forall>c. Occluded_call c \<in> set (fst (TensorModel_strength M tri tset sub)) \<longrightarrow>
                (\<exists>cam s. cameras M c = Some cam \<and> CameraTensor_strength cam tri = Inr s \<and> s \<noteq> 0))
         \<and> (\<forall>pre c post cam m tr.
                cameras M c = Some cam \<and>
                (CameraTensor_strength cam tri = Inr 0 \<or>
                 (\<exists>s. CameraTensor_strength cam tri = Inr s) \<and>
                   occluded M (TriangleTensor_centre tri) c tset) \<longrightarrow>
                view_loop M tri tset (pre @ c # post) m tr = view_loop M tri tset (pre @ [c]) m tr)
         \<and> (\<forall>pre v post tr.
                views M sub = pre @ v # post \<and>
                views_loop M tri tset (pre @ [v]) (Fin 0) [] = (tr, Inr (Fin 1)) \<longrightarrow>
                TensorModel_strength M tri tset sub = (tr, Inr (Fin 1)))"
proof -
  have 1: "snd (TensorModel_strength M tri tset sub) =
           Inr (Fin (Max (insert 0
             (view_strength sv (\<lambda>c. occluded M (TriangleTensor_centre tri) c tset)
                ` set (views M sub)))))"
    unfolding TensorModel_strength_def by (rule views_loop_value [OF assms]) simp
  have 2: "views M sub = [] \<longrightarrow> TensorModel_strength M tri tset sub = ([], Inr (Fin 0))"
    by (simp add: TensorModel_strength_def)
  have 3: "\<forall>c. Occluded_call c \<in> set (fst (TensorModel_strength M tri tset sub)) \<longrightarrow>
                (\<exists>cam s. cameras M c = Some cam \<and> CameraTensor_strength cam tri = Inr s \<and> s \<noteq> 0)"
  proof (intro allI impI)
    fix c
    assume "Occluded_call c \<in> set (fst (TensorModel_strength M tri tset sub))"
    then have "Occluded_call c \<in> set (fst (views_loop M tri tset (views M sub) (Fin 0) []))"
      by (simp add: TensorModel_strength_def)
    then show "\<exists>cam s. cameras M c = Some cam \<and> CameraTensor_strength cam tri = Inr s \<and> s \<noteq> 0"
      using views_loop_occluded_calls [of c M tri tset "views M sub" "Fin 0" "[]"] by simp
  qed
  have 4: "\<forall>pre c post cam m tr.
                cameras M c = Some cam \<and>
                (CameraTensor_strength cam tri = Inr 0 \<or>
                 (\<exists>s. CameraTensor_strength cam tri = Inr s) \<and>
                   occluded M (TriangleTensor_centre tri) c tset) \<longrightarrow>
                view_loop M tri tset (pre @ c # post) m tr = view_loop M tri tset (pre @ [c]) m tr"
  proof (intro allI impI)
    fix pre c post cam m tr
    assume h: "cameras M c = Some cam \<and>
                (CameraTensor_strength cam tri = Inr 0 \<or>
                 (\<exists>s. CameraTensor_strength cam tri = Inr s) \<and>
                   occluded M (TriangleTensor_centre tri) c tset)"
    then obtain s where s: "CameraTensor_strength cam tri = Inr s"
      "s = 0 \<or> occluded M (TriangleTensor_centre tri) c tset" by auto
    from h have c: "cameras M c = Some cam" by simp
    show "view_loop M tri tset (pre @ c # post) m tr = view_loop M tri tset (pre @ [c]) m tr"
      by (rule view_loop_break [OF c s])
  qed
  have 5: "\<forall>pre v post tr.
                views M sub = pre @ v # post \<and>
                views_loop M tri tset (pre @ [v]) (Fin 0) [] = (tr, Inr (Fin 1)) \<longrightarrow>
                TensorModel_strength M tri tset sub = (tr, Inr (Fin 1))"
  proof (intro allI impI)
    fix pre v post tr
    assume h: "views M sub = pre @ v # post \<and>
                views_loop M tri tset (pre @ [v]) (Fin 0) [] = (tr, Inr (Fin 1))"
    then have "views_loop M tri tset (pre @ [v]) (Fin 0) [] = (tr, Inr (Fin 1))" by simp
    then have "views_loop M tri tset (pre @ v # post) (Fin 0) [] = (tr, Inr (Fin 1))"
      by (rule views_loop_stop)
    then show "TensorModel_strength M tri tset sub = (tr, Inr (Fin 1))"
      using h by (simp add: TensorModel_strength_def)
  qed
  show ?thesis by (intro conjI 1 2 3 4 5)
qed

lemma example_strength_facing:
  "CameraTensor_strength example_camera_tensor facing_triangle = Inr 1"
proof -
  have c: "CameraTensor_centre example_camera_tensor = \<lparr>x = 0, y = 0, z = 2\<rparr>"
    "TriangleTensor_centre facing_triangle = \<lparr>x = 0, y = 0, z = 2\<rparr>"
    by (simp_all add: CameraTensor_centre_def TriangleTensor_centre_def
        example_camera_tensor_def facing_triangle_def)
  have e1: "euclidean \<lparr>x = 0, y = 0, z = 1\<rparr> (Point_neg \<lparr>x = 0, y = 0, z = - 1\<rparr>) = 0"
    by (simp add: euclidean_def Point_neg_def)
  have e0: "euclidean \<lparr>x = 0, y = 0, z = 2\<rparr> \<lparr>x = 0, y = 0, z = 2\<rparr> = 0"
    by (simp add: euclidean_def)
  show ?thesis
    unfolding CameraTensor_strength_def Let_def
    by (simp add: example_camera_facts facing_triangle_facts unit_up unit_down c e0 e1 ebind_def)
qed

lemma example_strength_averted:
  "CameraTensor_strength example_camera_tensor averted_triangle = Inr 0"
proof -
  have c: "CameraTensor_centre example_camera_tensor = \<lparr>x = 0, y = 0, z = 2\<rparr>"
    "TriangleTensor_centre averted_triangle = \<lparr>x = 0, y = 0, z = 2\<rparr>"
    by (simp_all add: CameraTensor_centre_def TriangleTensor_centre_def
        example_camera_tensor_def averted_triangle_def)
  have sq: "sqrt 2 < 2"
    using real_sqrt_less_iff [of 2 4] by simp
  have "sqrt ((2::real)\<^sup>2) = 2" by simp
  then have e2: "euclidean \<lparr>x = 0, y = 0, z = 1\<rparr> (Point_neg \<lparr>x = 0, y = 0, z = 1\<rparr>) = 2"
    by (simp add: euclidean_def Point_neg_def power2_eq_square)
  have e0: "euclidean \<lparr>x = 0, y = 0, z = 2\<rparr> \<lparr>x = 0, y = 0, z = 2\<rparr> = 0"
    by (simp add: euclidean_def)
  show ?thesis
    unfolding CameraTensor_strength_def Let_def
    using sq by (simp add: example_camera_facts averted_triangle_facts unit_up c e0 e2 ebind_def)
qed

theorem strength_aggregation_witness:
  "TensorModel_strength example_model facing_triangle () () =
     ([Strength_call ''a'', Occluded_call ''a''], Inr (Fin 1))"
proof -
  have h1: "\<forall>v\<in>set (views example_model ()). \<forall>c\<in>set v.
      \<exists>cam. cameras example_model c = Some cam \<and>
            CameraTensor_strength cam facing_triangle = Inr ((\<lambda>c. 1) c)"
    by (simp add: example_model_def example_strength_facing)
  have h2: "\<forall>v\<in>set (views example_model ()). v \<noteq> []"
    by (simp add: example_model_def)
  have first: "views_loop example_model facing_triangle () ([] @ [[''a'']]) (Fin 0) [] =
      ([Strength_call ''a'', Occluded_call ''a''], Inr (Fin 1))"
    by (simp add: example_model_def example_strength_facing fmax_def)
  have vs: "views example_model () = [] @ [''a''] # [[''b'']]"
    by (simp add: example_model_def)
  note t = strength_aggregation [OF h1 h2, of "()"]
  from t have "\<forall>pre v post tr.
      views example_model () = pre @ v # post \<and>
      views_loop example_model facing_triangle () (pre @ [v]) (Fin 0) [] = (tr, Inr (Fin 1)) \<longrightarrow>
      TensorModel_strength example_model facing_triangle () () = (tr, Inr (Fin 1))"
    by (elim conjE)
  then show ?thesis using vs first by blast
qed

text \<open>
  Claim C7, as amended.  When every enumerated view names at least one camera, and every
  camera named in a view is in the model and has a strength for the triangle,
  \<^verbatim>\<open>TensorModel.strength\<close> returns a finite value between 0 and 1.
\<close>

theorem strength_in_unit_interval:
  assumes "\<forall>v\<in>set (views M sub). \<forall>c\<in>set v.
             \<exists>cam s. cameras M c = Some cam \<and> CameraTensor_strength cam tri = Inr s"
    and "\<forall>v\<in>set (views M sub). v \<noteq> []"
  shows "\<exists>r. snd (TensorModel_strength M tri tset sub) = Inr (Fin r) \<and> 0 \<le> r \<and> r \<le> 1"
proof -
  define sv where "sv c = projr (CameraTensor_strength (the (cameras M c)) tri)" for c
  let ?occ = "\<lambda>c. occluded M (TriangleTensor_centre tri) c tset"
  let ?S = "insert 0 (view_strength sv ?occ ` set (views M sub))"
  have d: "\<forall>v\<in>set (views M sub). \<forall>c\<in>set v.
             \<exists>cam. cameras M c = Some cam \<and> CameraTensor_strength cam tri = Inr (sv c)"
    using assms(1) by (fastforce simp: sv_def)
  have val: "snd (TensorModel_strength M tri tset sub) = Inr (Fin (Max ?S))"
    unfolding TensorModel_strength_def by (rule views_loop_value [OF d assms(2)]) simp
  have rng: "0 \<le> u \<and> u \<le> 1" if u: "u \<in> ?S" for u
  proof (cases "u = 0")
    case True
    then show ?thesis by simp
  next
    case False
    then obtain v where v: "v \<in> set (views M sub)" "u = view_strength sv ?occ v"
      using u by auto
    have "\<forall>c\<in>set v. 0 \<le> sv c \<and> sv c \<le> 1"
      using d v(1) CameraTensor_strength_range by blast
    moreover have "v \<noteq> []" using assms(2) v(1) by simp
    ultimately show ?thesis using view_strength_range v(2) by blast
  qed
  have "Max ?S \<in> ?S" by (intro Max_in) auto
  then have "0 \<le> Max ?S \<and> Max ?S \<le> 1" using rng by blast
  then show ?thesis using val by blast
qed

theorem strength_in_unit_interval_witness:
  "\<exists>r. snd (TensorModel_strength example_model averted_triangle () ()) = Inr (Fin r)
        \<and> 0 \<le> r \<and> r \<le> 1"
proof -
  have s: "\<exists>s. CameraTensor_strength example_camera_tensor averted_triangle = Inr s"
    using example_strength_averted by blast
  have h1: "\<forall>v\<in>set (views example_model ()). \<forall>c\<in>set v.
      \<exists>cam s. cameras example_model c = Some cam \<and>
            CameraTensor_strength cam averted_triangle = Inr s"
    using s by (simp add: example_model_def)
  have h2: "\<forall>v\<in>set (views example_model ()). v \<noteq> []"
    by (simp add: example_model_def)
  show ?thesis by (rule strength_in_unit_interval [OF h1 h2])
qed

text \<open>
  Claim C7 as stated includes views without cameras.  For such a view the minimum keeps
  its start value \<^verbatim>\<open>float('inf')\<close>, and the maximum takes it over.
\<close>

theorem strength_empty_view_counterexample:
  "snd (TensorModel_strength empty_view_model facing_triangle () ()) = Inr PInf
   \<and> \<not> (\<exists>r. snd (TensorModel_strength empty_view_model facing_triangle () ()) = Inr (Fin r)
            \<and> 0 \<le> r \<and> r \<le> 1)"
  by (simp add: TensorModel_strength_def empty_view_model_def fmax_def)

subsection \<open>Vision distance\<close>

lemma py_range_3: "py_range 3 = [0, 1, 2]"
  by (simp add: py_range_def upt_rec numeral_3_eq_3)

lemma is_3x3_literal: "is_3x3 \<lparr>t_h = 3, t_w = 3, t_tensor = [a, b, c, d, e, f, g, h, i]\<rparr>"
  by (simp add: is_3x3_def)

lemma getitem_literal:
  shows "getitem \<lparr>t_h = 3, t_w = 3, t_tensor = [a, b, c, d, e, f, g, h, i]\<rparr> 0 0 = Inr a"
    "getitem \<lparr>t_h = 3, t_w = 3, t_tensor = [a, b, c, d, e, f, g, h, i]\<rparr> 0 1 = Inr b"
    "getitem \<lparr>t_h = 3, t_w = 3, t_tensor = [a, b, c, d, e, f, g, h, i]\<rparr> 0 2 = Inr c"
    "getitem \<lparr>t_h = 3, t_w = 3, t_tensor = [a, b, c, d, e, f, g, h, i]\<rparr> 1 0 = Inr d"
    "getitem \<lparr>t_h = 3, t_w = 3, t_tensor = [a, b, c, d, e, f, g, h, i]\<rparr> 1 1 = Inr e"
    "getitem \<lparr>t_h = 3, t_w = 3, t_tensor = [a, b, c, d, e, f, g, h, i]\<rparr> 1 2 = Inr f"
    "getitem \<lparr>t_h = 3, t_w = 3, t_tensor = [a, b, c, d, e, f, g, h, i]\<rparr> 2 0 = Inr g"
    "getitem \<lparr>t_h = 3, t_w = 3, t_tensor = [a, b, c, d, e, f, g, h, i]\<rparr> 2 1 = Inr h"
    "getitem \<lparr>t_h = 3, t_w = 3, t_tensor = [a, b, c, d, e, f, g, h, i]\<rparr> 2 2 = Inr i"
  using getitem_3x3 [OF is_3x3_literal, of 0 0 a b c d e f g h i]
    getitem_3x3 [OF is_3x3_literal, of 0 1 a b c d e f g h i]
    getitem_3x3 [OF is_3x3_literal, of 0 2 a b c d e f g h i]
    getitem_3x3 [OF is_3x3_literal, of 1 0 a b c d e f g h i]
    getitem_3x3 [OF is_3x3_literal, of 1 1 a b c d e f g h i]
    getitem_3x3 [OF is_3x3_literal, of 1 2 a b c d e f g h i]
    getitem_3x3 [OF is_3x3_literal, of 2 0 a b c d e f g h i]
    getitem_3x3 [OF is_3x3_literal, of 2 1 a b c d e f g h i]
    getitem_3x3 [OF is_3x3_literal, of 2 2 a b c d e f g h i]
  by simp_all

lemma Tensor_init_literal:
  "Tensor_init (Rows [[a, b, c], [d, e, f], [g, h, i]]) =
     Inr \<lparr>t_h = 3, t_w = 3, t_tensor = [a, b, c, d, e, f, g, h, i]\<rparr>"
  by (simp add: Tensor_init_def ebind_def)

lemma Tensor_neg_literal:
  "Tensor_neg \<lparr>t_h = 3, t_w = 3, t_tensor = [a, b, c, d, e, f, g, h, i]\<rparr> =
     Inr \<lparr>t_h = 3, t_w = 3, t_tensor = [- a, - b, c, - d, - e, f, - g, - h, i]\<rparr>"
  unfolding Tensor_neg_def getitem_literal ebind_def by (simp add: Tensor_init_literal)

lemma frobenius_literal:
  "frobenius \<lparr>t_h = 3, t_w = 3, t_tensor = [a1, a2, a3, a4, a5, a6, a7, a8, a9]\<rparr>
             \<lparr>t_h = 3, t_w = 3, t_tensor = [b1, b2, b3, b4, b5, b6, b7, b8, b9]\<rparr> =
     Inr (sqrt ((b1 - a1)\<^sup>2 + (b2 - a2)\<^sup>2 + (b3 - a3)\<^sup>2 + (b4 - a4)\<^sup>2 + (b5 - a5)\<^sup>2
                + (b6 - a6)\<^sup>2 + (b7 - a7)\<^sup>2 + (b8 - a8)\<^sup>2 + (b9 - a9)\<^sup>2))"
  unfolding frobenius_def size_of_def
  by (simp add: py_range_3 getitem_literal ebind_def)

lemma Tensor_unit_3x3:
  assumes "is_3x3 T"
    and "column T 0 = Inr c1" "Point_unit c1 = Inr u1"
    and "column T 1 = Inr c2" "Point_unit c2 = Inr u2"
    and "column T 2 = Inr c3" "Point_unit c3 = Inr u3"
  shows "Tensor_unit T =
     Inr \<lparr>t_h = 3, t_w = 3,
          t_tensor = [x u1, x u2, x u3, y u1, y u2, y u3, z u1, z u2, z u3]\<rparr>"
  unfolding Tensor_unit_def using assms by (simp add: ebind_def Tensor_init_literal)


lemma column_literal:
  "column \<lparr>t_h = 3, t_w = 3, t_tensor = [a, b, c, d, e, f, g, h, i]\<rparr> 0 = Inr \<lparr>x = a, y = d, z = g\<rparr>"
  "column \<lparr>t_h = 3, t_w = 3, t_tensor = [a, b, c, d, e, f, g, h, i]\<rparr> 1 = Inr \<lparr>x = b, y = e, z = h\<rparr>"
  "column \<lparr>t_h = 3, t_w = 3, t_tensor = [a, b, c, d, e, f, g, h, i]\<rparr> 2 = Inr \<lparr>x = c, y = f, z = i\<rparr>"
  unfolding column_def getitem_literal ebind_def by simp_all

lemma column_unit_exists:
  assumes "is_3x3 T" "j < 3" "column T (int j) \<noteq> Inr \<lparr>x = 0, y = 0, z = 0\<rparr>"
  shows "\<exists>c u. column T (int j) = Inr c \<and> Point_unit c = Inr u \<and> magnitude u = 1"
proof -
  obtain c where c: "column T (int j) = Inr c"
    using column_3x3 [OF assms(1,2)] by simp
  have "c \<noteq> \<lparr>x = 0, y = 0, z = 0\<rparr>" using assms(3) c by auto
  then have m: "magnitude c \<noteq> 0" by (cases c) (simp add: magnitude_zero_iff)
  let ?u = "\<lparr>x = x c / magnitude c, y = y c / magnitude c, z = z c / magnitude c\<rparr>"
  have u: "Point_unit c = Inr ?u" using m by (rule Point_unit_defined)
  have "(x c / magnitude c)\<^sup>2 + (y c / magnitude c)\<^sup>2 + (z c / magnitude c)\<^sup>2
        = ((x c)\<^sup>2 + (y c)\<^sup>2 + (z c)\<^sup>2) / (magnitude c)\<^sup>2"
    by (simp add: power_divide add_divide_distrib)
  also have "\<dots> = 1" using m by (simp add: magnitude_def)
  finally have "magnitude ?u = 1" by (simp add: magnitude_def)
  then show ?thesis using c u by blast
qed

lemma euclidean_squared:
  "(euclidean p q)\<^sup>2 = (x p - x q)\<^sup>2 + (y p - y q)\<^sup>2 + (z p - z q)\<^sup>2"
  by (simp add: euclidean_def)

text \<open>
  Claim C5.  For a camera tensor and another tensor, both 3x3 with no zero column,
  \<^verbatim>\<open>vision_distance\<close> raises nothing.  The columns \<open>u1, u2, u3\<close> of this tensor's unit
  basis are the columns \<open>c1, c2, c3\<close> of the tensor divided by their lengths, and likewise
  \<open>v1, v2, v3\<close> for the other tensor; the negation of the other's unit basis has the
  columns \<open>-v1, -v2, v3\<close>; \<open>frob\<close> is the Frobenius distance between the two, and the
  result is \<open>(1 / (1 - frob / sqrt 8)) * (euc + 1e-4)\<close> with \<open>euc\<close> the distance of the
  centres, unless \<open>1 - frob / sqrt 8\<close> is zero, when the result is the sentinel -1.
\<close>

theorem vision_distance_formula:
  assumes "is_3x3 (cam_tensor self)" "is_3x3 (other_tensor other)"
    and "\<forall>j\<in>{0, 1, 2}. column (cam_tensor self) j \<noteq> Inr \<lparr>x = 0, y = 0, z = 0\<rparr>
                       \<and> column (other_tensor other) j \<noteq> Inr \<lparr>x = 0, y = 0, z = 0\<rparr>"
  shows "\<exists>su ou nou frob c1 c2 c3 u1 u2 u3 d1 d2 d3 v1 v2 v3.
      column (cam_tensor self) 0 = Inr c1 \<and> column (cam_tensor self) 1 = Inr c2 \<and>
      column (cam_tensor self) 2 = Inr c3 \<and>
      Point_unit c1 = Inr u1 \<and> Point_unit c2 = Inr u2 \<and> Point_unit c3 = Inr u3 \<and>
      u1 = scaled c1 \<and> u2 = scaled c2 \<and> u3 = scaled c3 \<and>
      Tensor_unit (cam_tensor self) = Inr su \<and>
      column su 0 = Inr u1 \<and> column su 1 = Inr u2 \<and> column su 2 = Inr u3 \<and>
      magnitude u1 = 1 \<and> magnitude u2 = 1 \<and> magnitude u3 = 1 \<and>
      column (other_tensor other) 0 = Inr d1 \<and> column (other_tensor other) 1 = Inr d2 \<and>
      column (other_tensor other) 2 = Inr d3 \<and>
      Point_unit d1 = Inr v1 \<and> Point_unit d2 = Inr v2 \<and> Point_unit d3 = Inr v3 \<and>
      v1 = scaled d1 \<and> v2 = scaled d2 \<and> v3 = scaled d3 \<and>
      Tensor_unit (other_tensor other) = Inr ou \<and>
      column ou 0 = Inr v1 \<and> column ou 1 = Inr v2 \<and> column ou 2 = Inr v3 \<and>
      magnitude v1 = 1 \<and> magnitude v2 = 1 \<and> magnitude v3 = 1 \<and>
      Tensor_neg ou = Inr nou \<and>
      column nou 0 = Inr (Point_neg v1) \<and> column nou 1 = Inr (Point_neg v2) \<and>
      column nou 2 = Inr v3 \<and>
      frobenius su nou = Inr frob \<and>
      frob = sqrt ((euclidean u1 (Point_neg v1))\<^sup>2 + (euclidean u2 (Point_neg v2))\<^sup>2
                   + (euclidean u3 v3)\<^sup>2) \<and>
      (1 - frob / sqrt 8 \<noteq> 0 \<longrightarrow>
         vision_distance self other =
           Inr ((1 / (1 - frob / sqrt 8)) *
                (euclidean (CameraTensor_centre self) (other_centre other) + 1 / 10 ^ 4))) \<and>
      (1 - frob / sqrt 8 = 0 \<longrightarrow> vision_distance self other = Inr (- 1))"
proof -
  let ?A = "cam_tensor self" and ?B = "other_tensor other"
  have nzA: "column ?A (int 0) \<noteq> Inr \<lparr>x = 0, y = 0, z = 0\<rparr>"
    "column ?A (int 1) \<noteq> Inr \<lparr>x = 0, y = 0, z = 0\<rparr>"
    "column ?A (int 2) \<noteq> Inr \<lparr>x = 0, y = 0, z = 0\<rparr>"
    and nzB: "column ?B (int 0) \<noteq> Inr \<lparr>x = 0, y = 0, z = 0\<rparr>"
    "column ?B (int 1) \<noteq> Inr \<lparr>x = 0, y = 0, z = 0\<rparr>"
    "column ?B (int 2) \<noteq> Inr \<lparr>x = 0, y = 0, z = 0\<rparr>"
    using assms(3) by simp_all
  obtain c1 u1 where 1: "column ?A 0 = Inr c1" "Point_unit c1 = Inr u1" "magnitude u1 = 1"
    using column_unit_exists [OF assms(1) _ nzA(1)] by auto
  obtain c2 u2 where 2: "column ?A 1 = Inr c2" "Point_unit c2 = Inr u2" "magnitude u2 = 1"
    using column_unit_exists [OF assms(1) _ nzA(2)] by auto
  obtain c3 u3 where 3: "column ?A 2 = Inr c3" "Point_unit c3 = Inr u3" "magnitude u3 = 1"
    using column_unit_exists [OF assms(1) _ nzA(3)] by auto
  obtain d1 v1 where 4: "column ?B 0 = Inr d1" "Point_unit d1 = Inr v1" "magnitude v1 = 1"
    using column_unit_exists [OF assms(2) _ nzB(1)] by auto
  obtain d2 v2 where 5: "column ?B 1 = Inr d2" "Point_unit d2 = Inr v2" "magnitude v2 = 1"
    using column_unit_exists [OF assms(2) _ nzB(2)] by auto
  obtain d3 v3 where 6: "column ?B 2 = Inr d3" "Point_unit d3 = Inr v3" "magnitude v3 = 1"
    using column_unit_exists [OF assms(2) _ nzB(3)] by auto
  define su where "su = \<lparr>t_h = 3, t_w = 3,
          t_tensor = [x u1, x u2, x u3, y u1, y u2, y u3, z u1, z u2, z u3]\<rparr>"
  define ou where "ou = \<lparr>t_h = 3, t_w = 3,
          t_tensor = [x v1, x v2, x v3, y v1, y v2, y v3, z v1, z v2, z v3]\<rparr>"
  define nou where "nou = \<lparr>t_h = 3, t_w = 3,
          t_tensor = [- x v1, - x v2, x v3, - y v1, - y v2, y v3, - z v1, - z v2, z v3]\<rparr>"
  define frob where "frob = sqrt ((euclidean u1 (Point_neg v1))\<^sup>2
      + (euclidean u2 (Point_neg v2))\<^sup>2 + (euclidean u3 v3)\<^sup>2)"
  have su: "Tensor_unit ?A = Inr su"
    unfolding su_def by (rule Tensor_unit_3x3 [OF assms(1) 1(1,2) 2(1,2) 3(1,2)])
  have ou: "Tensor_unit ?B = Inr ou"
    unfolding ou_def by (rule Tensor_unit_3x3 [OF assms(2) 4(1,2) 5(1,2) 6(1,2)])
  have nou: "Tensor_neg ou = Inr nou"
    unfolding ou_def nou_def by (rule Tensor_neg_literal)
  have cs: "column su 0 = Inr u1" "column su 1 = Inr u2" "column su 2 = Inr u3"
    unfolding su_def column_literal by simp_all
  have co: "column ou 0 = Inr v1" "column ou 1 = Inr v2" "column ou 2 = Inr v3"
    unfolding ou_def column_literal by simp_all
  have fr: "frobenius su nou = Inr frob"
    unfolding su_def nou_def frobenius_literal frob_def euclidean_squared
    by (simp add: Point_neg_def power2_eq_square algebra_simps)
  have vd: "vision_distance self other =
      (if 1 - frob / sqrt 8 = 0 then Inr (- 1)
       else Inr ((1 / (1 - frob / sqrt 8)) *
                 (euclidean (CameraTensor_centre self) (other_centre other) + 1 / 10 ^ 4)))"
    unfolding vision_distance_def Let_def su ou by (simp add: ebind_def nou fr)
  have a: "1 - frob / sqrt 8 \<noteq> 0 \<longrightarrow>
         vision_distance self other =
           Inr ((1 / (1 - frob / sqrt 8)) *
                (euclidean (CameraTensor_centre self) (other_centre other) + 1 / 10 ^ 4))"
    using vd by simp
  have b: "1 - frob / sqrt 8 = 0 \<longrightarrow> vision_distance self other = Inr (- 1)"
    using vd by simp
  have sc: "u1 = scaled c1" "u2 = scaled c2" "u3 = scaled c3"
    "v1 = scaled d1" "v2 = scaled d2" "v3 = scaled d3"
    using 1(2) 2(2) 3(2) 4(2) 5(2) 6(2)
    by (auto simp: Point_unit_def Let_def scaled_def split: if_splits)
  have cn: "column nou 0 = Inr (Point_neg v1)" "column nou 1 = Inr (Point_neg v2)"
    "column nou 2 = Inr v3"
    unfolding nou_def column_literal by (simp_all add: Point_neg_def)
  have self_part: "column (cam_tensor self) 0 = Inr c1 \<and> column (cam_tensor self) 1 = Inr c2 \<and>
      column (cam_tensor self) 2 = Inr c3 \<and>
      Point_unit c1 = Inr u1 \<and> Point_unit c2 = Inr u2 \<and> Point_unit c3 = Inr u3 \<and>
      u1 = scaled c1 \<and> u2 = scaled c2 \<and> u3 = scaled c3 \<and>
      Tensor_unit (cam_tensor self) = Inr su \<and>
      column su 0 = Inr u1 \<and> column su 1 = Inr u2 \<and> column su 2 = Inr u3 \<and>
      magnitude u1 = 1 \<and> magnitude u2 = 1 \<and> magnitude u3 = 1"
    using 1 2 3 sc(1,2,3) su cs by simp
  have other_part: "column (other_tensor other) 0 = Inr d1 \<and> column (other_tensor other) 1 = Inr d2 \<and>
      column (other_tensor other) 2 = Inr d3 \<and>
      Point_unit d1 = Inr v1 \<and> Point_unit d2 = Inr v2 \<and> Point_unit d3 = Inr v3 \<and>
      v1 = scaled d1 \<and> v2 = scaled d2 \<and> v3 = scaled d3 \<and>
      Tensor_unit (other_tensor other) = Inr ou \<and>
      column ou 0 = Inr v1 \<and> column ou 1 = Inr v2 \<and> column ou 2 = Inr v3 \<and>
      magnitude v1 = 1 \<and> magnitude v2 = 1 \<and> magnitude v3 = 1"
    using 4 5 6 sc(4,5,6) ou co by simp
  have rest: "Tensor_neg ou = Inr nou \<and>
      column nou 0 = Inr (Point_neg v1) \<and> column nou 1 = Inr (Point_neg v2) \<and>
      column nou 2 = Inr v3 \<and>
      frobenius su nou = Inr frob \<and>
      frob = sqrt ((euclidean u1 (Point_neg v1))\<^sup>2 + (euclidean u2 (Point_neg v2))\<^sup>2
                   + (euclidean u3 v3)\<^sup>2) \<and>
      (1 - frob / sqrt 8 \<noteq> 0 \<longrightarrow>
         vision_distance self other =
           Inr ((1 / (1 - frob / sqrt 8)) *
                (euclidean (CameraTensor_centre self) (other_centre other) + 1 / 10 ^ 4))) \<and>
      (1 - frob / sqrt 8 = 0 \<longrightarrow> vision_distance self other = Inr (- 1))"
    using nou cn fr frob_def a b by simp
  show ?thesis
    using self_part other_part rest by blast
qed


lemma example_unit:
  "Tensor_unit (cam_tensor example_camera_tensor) =
     Inr \<lparr>t_h = 3, t_w = 3, t_tensor = [0, 0, - 1, 0, 1, 0, 1, 0, 0]\<rparr>"
proof -
  have s4: "sqrt 4 = 2" using real_sqrt_abs [of 2] by simp
  have c: "column (cam_tensor example_camera_tensor) 0 = Inr \<lparr>x = 0, y = 0, z = 1\<rparr>"
    "column (cam_tensor example_camera_tensor) 1 = Inr \<lparr>x = 0, y = 2, z = 0\<rparr>"
    "column (cam_tensor example_camera_tensor) 2 = Inr \<lparr>x = - 2, y = 0, z = 0\<rparr>"
    unfolding example_camera_tensor_def by (simp_all add: column_literal)
  have u: "Point_unit \<lparr>x = 0, y = 2, z = 0\<rparr> = Inr \<lparr>x = 0, y = 1, z = 0\<rparr>"
    "Point_unit \<lparr>x = - 2, y = 0, z = 0\<rparr> = Inr \<lparr>x = - 1, y = 0, z = 0\<rparr>"
    by (simp_all add: Point_unit_def magnitude_def s4)
  show ?thesis
    using Tensor_unit_3x3 [OF example_camera_facts(1) c(1) unit_up c(2) u(1) c(3) u(2)] by simp
qed

lemma facing_unit:
  "Tensor_unit (tri_tensor facing_triangle) =
     Inr \<lparr>t_h = 3, t_w = 3, t_tensor = [0, 1, 0, 0, 0, 1, - 1, 0, 0]\<rparr>"
proof -
  have c: "column (tri_tensor facing_triangle) 0 = Inr \<lparr>x = 0, y = 0, z = - 1\<rparr>"
    "column (tri_tensor facing_triangle) 1 = Inr \<lparr>x = 1, y = 0, z = 0\<rparr>"
    "column (tri_tensor facing_triangle) 2 = Inr \<lparr>x = 0, y = 1, z = 0\<rparr>"
    unfolding facing_triangle_def by (simp_all add: column_literal)
  have u: "Point_unit \<lparr>x = 1, y = 0, z = 0\<rparr> = Inr \<lparr>x = 1, y = 0, z = 0\<rparr>"
    "Point_unit \<lparr>x = 0, y = 1, z = 0\<rparr> = Inr \<lparr>x = 0, y = 1, z = 0\<rparr>"
    by (simp_all add: Point_unit_def magnitude_def)
  show ?thesis
    using Tensor_unit_3x3 [OF facing_triangle_facts(1) c(1) unit_down c(2) u(1) c(3) u(2)]
    by simp
qed

theorem vision_distance_formula_witness:
  "vision_distance example_camera_tensor (Camera example_camera_tensor) = Inr (- 1)
   \<and> vision_distance example_camera_tensor (Triangle facing_triangle) =
       Inr ((1 / (1 - 2 / sqrt 8)) * (1 / 10 ^ 4))"
proof -
  let ?c = example_camera_tensor
  have h1: "is_3x3 (cam_tensor ?c)" by (rule example_camera_facts(1))
  have h2: "is_3x3 (other_tensor (Camera ?c))" using h1 by simp
  have h3: "\<forall>j\<in>{0, 1, 2}. column (cam_tensor ?c) j \<noteq> Inr \<lparr>x = 0, y = 0, z = 0\<rparr>
                       \<and> column (other_tensor (Camera ?c)) j \<noteq> Inr \<lparr>x = 0, y = 0, z = 0\<rparr>"
    unfolding example_camera_tensor_def by (simp add: column_literal)
  obtain su ou nou frob where t: "Tensor_unit (cam_tensor ?c) = Inr su"
    "Tensor_unit (other_tensor (Camera ?c)) = Inr ou" "Tensor_neg ou = Inr nou"
    "frobenius su nou = Inr frob"
    "1 - frob / sqrt 8 = 0 \<longrightarrow> vision_distance ?c (Camera ?c) = Inr (- 1)"
    using vision_distance_formula [OF h1 h2 h3] by blast
  have su: "su = \<lparr>t_h = 3, t_w = 3, t_tensor = [0, 0, - 1, 0, 1, 0, 1, 0, 0]\<rparr>"
    using t(1) example_unit by simp
  have ou: "ou = \<lparr>t_h = 3, t_w = 3, t_tensor = [0, 0, - 1, 0, 1, 0, 1, 0, 0]\<rparr>"
    using t(2) example_unit by simp
  have nou: "nou = \<lparr>t_h = 3, t_w = 3, t_tensor = [- 0, - 0, - 1, - 0, - 1, 0, - 1, - 0, 0]\<rparr>"
    using t(3) unfolding ou Tensor_neg_literal by simp
  have "frob = sqrt 8"
    using t(4) unfolding su nou frobenius_literal by simp
  then have sentinel: "vision_distance ?c (Camera ?c) = Inr (- 1)" using t(5) by simp
  have k2: "is_3x3 (other_tensor (Triangle facing_triangle))"
    using facing_triangle_facts(1) by simp
  have k3: "\<forall>j\<in>{0, 1, 2}. column (cam_tensor ?c) j \<noteq> Inr \<lparr>x = 0, y = 0, z = 0\<rparr>
        \<and> column (other_tensor (Triangle facing_triangle)) j \<noteq> Inr \<lparr>x = 0, y = 0, z = 0\<rparr>"
    unfolding example_camera_tensor_def facing_triangle_def by (simp add: column_literal)
  obtain su' ou' nou' frob' where t': "Tensor_unit (cam_tensor ?c) = Inr su'"
    "Tensor_unit (other_tensor (Triangle facing_triangle)) = Inr ou'" "Tensor_neg ou' = Inr nou'"
    "frobenius su' nou' = Inr frob'"
    "1 - frob' / sqrt 8 \<noteq> 0 \<longrightarrow>
       vision_distance ?c (Triangle facing_triangle) =
         Inr ((1 / (1 - frob' / sqrt 8)) *
              (euclidean (CameraTensor_centre ?c) (other_centre (Triangle facing_triangle))
               + 1 / 10 ^ 4))"
    using vision_distance_formula [OF h1 k2 k3] by blast
  have su': "su' = \<lparr>t_h = 3, t_w = 3, t_tensor = [0, 0, - 1, 0, 1, 0, 1, 0, 0]\<rparr>"
    using t'(1) example_unit by simp
  have ou': "ou' = \<lparr>t_h = 3, t_w = 3, t_tensor = [0, 1, 0, 0, 0, 1, - 1, 0, 0]\<rparr>"
    using t'(2) facing_unit by simp
  have nou': "nou' = \<lparr>t_h = 3, t_w = 3, t_tensor = [- 0, - 1, 0, - 0, - 0, 1, - (- 1), - 0, 0]\<rparr>"
    using t'(3) unfolding ou' Tensor_neg_literal by simp
  have "frob' = sqrt 4"
    using t'(4) unfolding su' nou' frobenius_literal by simp
  then have f2: "frob' = 2" using real_sqrt_abs [of 2] by simp
  have "sqrt 4 < sqrt 8" by (simp only: real_sqrt_less_iff)
  then have "2 < sqrt 8" using real_sqrt_abs [of 2] by simp
  then have nz: "1 - 2 / sqrt 8 \<noteq> 0" by simp
  have e0: "euclidean (CameraTensor_centre ?c) (other_centre (Triangle facing_triangle)) = 0"
    by (simp add: euclidean_def CameraTensor_centre_def TriangleTensor_centre_def
        example_camera_tensor_def facing_triangle_def)
  have formula: "vision_distance ?c (Triangle facing_triangle) =
       Inr ((1 / (1 - 2 / sqrt 8)) * (1 / 10 ^ 4))"
    using t'(5) nz unfolding f2 e0 by simp
  show ?thesis using sentinel formula by simp
qed

subsection \<open>The axis of a camera tensor\<close>

lemma get_tensor_matrix_first_column:
  assumes "CameraTensor_get_tensor_matrix gen pose tp = Inr (ctr, m)"
  shows "\<exists>fa r1 r2 r3. local_first_axis (gen tp) = Inr fa \<and>
           m = [x (R_rotate pose fa) # r1, y (R_rotate pose fa) # r2, z (R_rotate pose fa) # r3]
           \<and> length r1 = 2 \<and> length r2 = 2 \<and> length r3 = 2"
  using assms
  unfolding CameraTensor_get_tensor_matrix_def local_first_axis_def Let_def ebind_def
  by (auto split: sum.splits if_splits)

text \<open>
  What the code does for every camera tensor that the constructor built: \<^verbatim>\<open>axis\<close> is the
  first column of the stored tensor, \<^verbatim>\<open>(self[0,0], self[1,0], self[2,0])\<close>, and the stored
  tensor is expressed in the world frame, so the column is the camera's local first basis
  vector rotated by the rotation of the pose.
\<close>

lemma camera_axis_world_frame:
  assumes "CameraTensor_init gen pose tp st = (st', Inr c)"
  shows "\<exists>first_axis a b d.
           local_first_axis (gen (st' defaults)) = Inr first_axis \<and>
           getitem (cam_tensor c) 0 0 = Inr a \<and>
           getitem (cam_tensor c) 1 0 = Inr b \<and>
           getitem (cam_tensor c) 2 0 = Inr d \<and>
           CameraTensor_axis c = Inr \<lparr>x = a, y = b, z = d\<rparr> \<and>
           CameraTensor_axis c = Inr (R_rotate pose first_axis)"
proof -
  have st': "st' = st(defaults := st defaults ++ tp)"
    using assms by (simp add: CameraTensor_init_def Let_def)
  obtain ctr m where g: "CameraTensor_get_tensor_matrix gen pose (st' defaults) = Inr (ctr, m)"
    and t: "Tensor_init (Rows m) = Inr (cam_tensor c)"
    using assms unfolding CameraTensor_init_def Let_def ebind_def st'
    by (auto split: sum.splits)
  obtain fa r1 r2 r3 where fa: "local_first_axis (gen (st' defaults)) = Inr fa"
    and m: "m = [x (R_rotate pose fa) # r1, y (R_rotate pose fa) # r2, z (R_rotate pose fa) # r3]"
    and l: "length r1 = 2" "length r2 = 2" "length r3 = 2"
    using get_tensor_matrix_first_column [OF g] by blast
  obtain p q where r1: "r1 = [p, q]" using l(1)
    by (metis (no_types, opaque_lifting) One_nat_def Suc_1 length_0_conv length_Suc_conv)
  obtain p' q' where r2: "r2 = [p', q']" using l(2)
    by (metis (no_types, opaque_lifting) One_nat_def Suc_1 length_0_conv length_Suc_conv)
  obtain p'' q'' where r3: "r3 = [p'', q'']" using l(3)
    by (metis (no_types, opaque_lifting) One_nat_def Suc_1 length_0_conv length_Suc_conv)
  have T: "cam_tensor c = \<lparr>t_h = 3, t_w = 3, t_tensor =
      [x (R_rotate pose fa), p, q, y (R_rotate pose fa), p', q', z (R_rotate pose fa), p'', q'']\<rparr>"
    using t unfolding m r1 r2 r3 by (simp add: Tensor_init_literal)
  have g0: "getitem (cam_tensor c) 0 0 = Inr (x (R_rotate pose fa))"
    "getitem (cam_tensor c) 1 0 = Inr (y (R_rotate pose fa))"
    "getitem (cam_tensor c) 2 0 = Inr (z (R_rotate pose fa))"
    unfolding T by (simp_all add: getitem_literal)
  have ax: "CameraTensor_axis c = Inr (R_rotate pose fa)"
    unfolding CameraTensor_axis_def T column_literal by simp
  show ?thesis using fa g0 ax by auto
qed

lemma quarter_turn_camera:
  "CameraTensor_init (\<lambda>tp. example_hull) quarter_turn_pose Map.empty initial_store =
     (initial_store,
      Inr \<lparr>task_params = defaults, frustum_centre = \<lparr>x = 0, y = - 2, z = 0\<rparr>,
           cam_tensor = \<lparr>t_h = 3, t_w = 3, t_tensor = [0, 0, - 2, - 1, 0, 0, 0, 2, 0]\<rparr>\<rparr>)"
proof -
  have "CameraTensor_get_tensor_matrix (\<lambda>tp. example_hull) quarter_turn_pose tp =
     Inr (\<lparr>x = 0, y = - 2, z = 0\<rparr>, [[0, 0, - 2], [- 1, 0, 0], [0, 2, 0]])" for tp
    by (simp add: CameraTensor_get_tensor_matrix_def example_hull_def quarter_turn_pose_def
      avg_points_def list_get_def ebind_def Point_sub_def Let_def)
  then show ?thesis
    by (simp add: CameraTensor_init_def Tensor_init_literal ebind_def Let_def)
qed

lemma example_local_first_axis:
  "local_first_axis example_hull = Inr \<lparr>x = 0, y = 0, z = 1\<rparr>"
  by (simp add: local_first_axis_def example_hull_def avg_points_def ebind_def Point_sub_def)

text \<open>
  Claim C4.  \<^verbatim>\<open>axis\<close> should return the camera's first basis column in the camera's own
  frame, as its docstring says.  For the camera built from the example hull under a
  quarter turn about the first coordinate axis, the first basis vector in the camera's
  frame is \<open>(0, 0, 1)\<close>, and \<^verbatim>\<open>axis\<close> returns the rotated vector \<open>(0, -1, 0)\<close>.
\<close>

theorem camera_axis_not_in_camera_frame:
  "\<exists>c. snd (CameraTensor_init (\<lambda>tp. example_hull) quarter_turn_pose Map.empty initial_store) = Inr c
       \<and> CameraTensor_axis c = Inr \<lparr>x = 0, y = - 1, z = 0\<rparr>
       \<and> local_first_axis example_hull = Inr \<lparr>x = 0, y = 0, z = 1\<rparr>
       \<and> CameraTensor_axis c \<noteq> local_first_axis example_hull"
  by (simp add: quarter_turn_camera example_local_first_axis CameraTensor_axis_def column_literal)

subsection \<open>The basis of a triangle tensor\<close>

lemma magnitude_squared: "(magnitude p)\<^sup>2 = dot p p"
  by (simp add: magnitude_def dot_def power2_eq_square)

lemma Point_unit_result:
  assumes "Point_unit p = Inr u"
  shows "magnitude p \<noteq> 0" and "u = \<lparr>x = x p / magnitude p, y = y p / magnitude p, z = z p / magnitude p\<rparr>"
    and "magnitude u = 1"
proof -
  show m: "magnitude p \<noteq> 0" using assms by (auto simp: Point_unit_def Let_def split: if_splits)
  show u: "u = \<lparr>x = x p / magnitude p, y = y p / magnitude p, z = z p / magnitude p\<rparr>"
    using assms m by (simp add: Point_unit_def Let_def)
  have "(x p / magnitude p)\<^sup>2 + (y p / magnitude p)\<^sup>2 + (z p / magnitude p)\<^sup>2
        = ((x p)\<^sup>2 + (y p)\<^sup>2 + (z p)\<^sup>2) / (magnitude p)\<^sup>2"
    by (simp add: power_divide add_divide_distrib)
  also have "\<dots> = 1" using m by (simp add: magnitude_def)
  finally show "magnitude u = 1" unfolding u by (simp add: magnitude_def)
qed

lemma dot_cross_left: "dot (cross p q) p = 0"
  by (simp add: dot_def cross_def algebra_simps)

lemma dot_cross_right: "dot (cross p q) q = 0"
  by (simp add: dot_def cross_def algebra_simps)

lemma dot_commute: "dot p q = dot q p"
  by (simp add: dot_def mult.commute)

lemma lagrange: "dot (cross p q) (cross p q) = dot p p * dot q q - (dot p q)\<^sup>2"
  by (simp add: dot_def cross_def power2_eq_square algebra_simps)

lemma cross_nonzero:
  assumes "cross p q \<noteq> \<lparr>x = 0, y = 0, z = 0\<rparr>"
  shows "magnitude p \<noteq> 0" "magnitude q \<noteq> 0" "magnitude (cross p q) \<noteq> 0"
proof -
  show "magnitude p \<noteq> 0"
  proof
    assume "magnitude p = 0"
    then have "x p = 0 \<and> y p = 0 \<and> z p = 0" by (simp add: magnitude_zero_iff)
    then have "cross p q = \<lparr>x = 0, y = 0, z = 0\<rparr>" by (simp add: cross_def)
    then show False using assms by simp
  qed
  show "magnitude q \<noteq> 0"
  proof
    assume "magnitude q = 0"
    then have "x q = 0 \<and> y q = 0 \<and> z q = 0" by (simp add: magnitude_zero_iff)
    then have "cross p q = \<lparr>x = 0, y = 0, z = 0\<rparr>" by (simp add: cross_def)
    then show False using assms by simp
  qed
  show "magnitude (cross p q) \<noteq> 0"
  proof
    assume "magnitude (cross p q) = 0"
    then have "x (cross p q) = 0 \<and> y (cross p q) = 0 \<and> z (cross p q) = 0"
      by (simp add: magnitude_zero_iff)
    then have "cross p q = \<lparr>x = 0, y = 0, z = 0\<rparr>" by (cases "cross p q") simp
    then show False using assms by simp
  qed
qed

lemma cross_scaled:
  "cross (scaled p) (scaled q) =
     \<lparr>x = x (cross p q) / (magnitude p * magnitude q),
      y = y (cross p q) / (magnitude p * magnitude q),
      z = z (cross p q) / (magnitude p * magnitude q)\<rparr>"
  by (simp add: cross_def scaled_def diff_divide_distrib)

lemma dot_scaled_left: "dot (scaled p) q = dot p q / magnitude p"
  by (simp add: dot_def scaled_def add_divide_distrib)

lemma dot_scaled_right: "dot p (scaled q) = dot p q / magnitude q"
  by (simp add: dot_def scaled_def add_divide_distrib)


lemma Point_unit_scaled: "magnitude p \<noteq> 0 \<Longrightarrow> Point_unit p = Inr (scaled p)"
  by (simp add: Point_unit_def Let_def scaled_def)

lemma magnitude_scaled: "magnitude p \<noteq> 0 \<Longrightarrow> magnitude (scaled p) = 1"
  using Point_unit_result(3) [OF Point_unit_scaled] by simp

lemma Point_mul_scaled: "magnitude p \<noteq> 0 \<Longrightarrow> Point_mul (scaled p) (magnitude p) = p"
  by (simp add: Point_mul_def scaled_def)

lemma magnitude_zero_point: "magnitude p = 0 \<longleftrightarrow> p = \<lparr>x = 0, y = 0, z = 0\<rparr>"
  by (cases p) (simp add: magnitude_zero_iff)

lemma centroid_offsets:
  assumes "avg_points [v0, v1, v2] = Inr c"
  shows "Point_sub v2 c = Point_neg (Point_add (Point_sub v0 c) (Point_sub v1 c))"
proof -
  have c: "c = \<lparr>x = (x v0 + x v1 + x v2) / 3, y = (y v0 + y v1 + y v2) / 3,
                 z = (z v0 + z v1 + z v2) / 3\<rparr>"
    using assms by (simp add: avg_points_def add.assoc)
  show ?thesis unfolding c by (simp add: Point_sub_def Point_neg_def Point_add_def field_simps)
qed

lemma dot_neg_add: "dot n (Point_neg (Point_add p q)) = - (dot n p + dot n q)"
  by (simp add: dot_def Point_neg_def Point_add_def algebra_simps)

text \<open>
  Claim C3, as amended.  For the three vertices of a triangle that is not degenerate, with
  centroid \<open>c\<close>, the basis consists of three unit vectors scaled by \<open>mag\<close>, the least of
  the distances from the centroid to the three edges: \<open>n\<close>, normal to the plane of the
  triangle; \<open>d\<close>, the direction from the centroid to the first vertex; and \<open>e\<close>,
  orthogonal to both.  The columns of the tensor are these three vectors rotated by the
  rotation of the pose, and the centre is the centroid mapped by the pose.
\<close>

theorem triangle_basis:
  assumes "avg_points [v0, v1, v2] = Inr c"
    and "cross (Point_sub v0 c) (Point_sub v1 c) \<noteq> \<lparr>x = 0, y = 0, z = 0\<rparr>"
  shows "\<exists>n d e mag a1 a2 a3.
     mag = min (point_segment_dis v0 v1 c) (min (point_segment_dis v0 v2 c) (point_segment_dis v1 v2 c)) \<and>
     TriangleTensor_get_tensor_basis [v0, v1, v2] =
       Inr [Point_mul n mag, Point_mul d mag, Point_mul e mag] \<and>
     magnitude n = 1 \<and> magnitude d = 1 \<and> magnitude e = 1 \<and>
     dot n d = 0 \<and> dot n e = 0 \<and> dot d e = 0 \<and>
     dot n (Point_sub v0 c) = 0 \<and> dot n (Point_sub v1 c) = 0 \<and> dot n (Point_sub v2 c) = 0 \<and>
     Point_mul d (magnitude (Point_sub v0 c)) = Point_sub v0 c \<and>
     a1 = R_rotate pose (Point_mul n mag) \<and>
     a2 = R_rotate pose (Point_mul d mag) \<and>
     a3 = R_rotate pose (Point_mul e mag) \<and>
     TriangleTensor_init [v0, v1, v2] pose =
       Inr \<lparr>tri_centre = pose_map pose c,
            tri_tensor = \<lparr>t_h = 3, t_w = 3,
              t_tensor = [x a1, x a2, x a3, y a1, y a2, y a3, z a1, z a2, z a3]\<rparr>\<rparr>"
proof -
  let ?w1 = "Point_sub v0 c" and ?w2 = "Point_sub v1 c"
  define d where "d = scaled ?w1"
  define u2 where "u2 = scaled ?w2"
  define n where "n = scaled (cross d u2)"
  define e where "e = scaled (cross d n)"
  define mag where "mag = min (point_segment_dis v0 v1 c)
      (min (point_segment_dis v0 v2 c) (point_segment_dis v1 v2 c))"
  have m1: "magnitude ?w1 \<noteq> 0" and m2: "magnitude ?w2 \<noteq> 0"
    and mc: "magnitude (cross ?w1 ?w2) \<noteq> 0"
    using cross_nonzero [OF assms(2)] by blast+
  have md: "magnitude d = 1" unfolding d_def using m1 by (rule magnitude_scaled)
  have cdu: "cross d u2 \<noteq> \<lparr>x = 0, y = 0, z = 0\<rparr>"
  proof
    assume z: "cross d u2 = \<lparr>x = 0, y = 0, z = 0\<rparr>"
    have "x (cross ?w1 ?w2) = 0 \<and> y (cross ?w1 ?w2) = 0 \<and> z (cross ?w1 ?w2) = 0"
      using z m1 m2 unfolding d_def u2_def cross_scaled by simp
    then show False using mc by (simp add: magnitude_zero_iff)
  qed
  then have mk: "magnitude (cross d u2) \<noteq> 0" by (simp add: magnitude_zero_point)
  have mn: "magnitude n = 1" unfolding n_def using mk by (rule magnitude_scaled)
  have nd: "dot n d = 0"
    unfolding n_def by (simp add: dot_scaled_left dot_cross_left)
  have nu2: "dot n u2 = 0"
    unfolding n_def by (simp add: dot_scaled_left dot_cross_right)
  have "(magnitude (cross d n))\<^sup>2 = 1"
    unfolding magnitude_squared lagrange
    using md mn nd by (simp add: magnitude_squared [symmetric] dot_commute)
  then have mdn: "magnitude (cross d n) = 1"
    using magnitude_nonneg [of "cross d n"] by (simp add: power2_eq_1_iff)
  have me: "magnitude e = 1" unfolding e_def using mdn by (intro magnitude_scaled) simp
  have ne: "dot n e = 0"
    unfolding e_def by (simp add: dot_scaled_right dot_commute [of n] dot_cross_right)
  have de: "dot d e = 0"
    unfolding e_def by (simp add: dot_scaled_right dot_commute [of d] dot_cross_left)
  have nw1: "dot n ?w1 = 0"
  proof -
    have "dot n d = dot n ?w1 / magnitude ?w1" unfolding d_def by (rule dot_scaled_right)
    then show ?thesis using nd m1 by simp
  qed
  have nw2: "dot n ?w2 = 0"
  proof -
    have "dot n u2 = dot n ?w2 / magnitude ?w2" unfolding u2_def by (rule dot_scaled_right)
    then show ?thesis using nu2 m2 by simp
  qed
  have nw3: "dot n (Point_sub v2 c) = 0"
    unfolding centroid_offsets [OF assms(1)] dot_neg_add using nw1 nw2 by simp
  have dw: "Point_mul d (magnitude ?w1) = ?w1"
    unfolding d_def using m1 by (rule Point_mul_scaled)
  have u1: "Point_unit ?w1 = Inr d" unfolding d_def using m1 by (rule Point_unit_scaled)
  have u2: "Point_unit ?w2 = Inr u2" unfolding u2_def using m2 by (rule Point_unit_scaled)
  have un: "Point_unit (cross d u2) = Inr n" unfolding n_def using mk by (rule Point_unit_scaled)
  have ue: "Point_unit (cross d n) = Inr e"
    unfolding e_def using mdn by (intro Point_unit_scaled) simp
  have basis: "TriangleTensor_get_tensor_basis [v0, v1, v2] =
       Inr [Point_mul n mag, Point_mul d mag, Point_mul e mag]"
    unfolding TriangleTensor_get_tensor_basis_def Let_def assms(1)
    by (simp add: ebind_def list_get_def u1 u2 un ue mag_def)
  define a1 where "a1 = R_rotate pose (Point_mul n mag)"
  define a2 where "a2 = R_rotate pose (Point_mul d mag)"
  define a3 where "a3 = R_rotate pose (Point_mul e mag)"
  have matrix: "TriangleTensor_get_tensor_matrix pose [v0, v1, v2] =
      Inr (pose_map pose c, [[x a1, x a2, x a3], [y a1, y a2, y a3], [z a1, z a2, z a3]])"
    unfolding TriangleTensor_get_tensor_matrix_def Let_def assms(1) basis
    by (simp add: ebind_def list_get_def a1_def a2_def a3_def)
  have init: "TriangleTensor_init [v0, v1, v2] pose =
       Inr \<lparr>tri_centre = pose_map pose c,
            tri_tensor = \<lparr>t_h = 3, t_w = 3,
              t_tensor = [x a1, x a2, x a3, y a1, y a2, y a3, z a1, z a2, z a3]\<rparr>\<rparr>"
    unfolding TriangleTensor_init_def matrix by (simp add: ebind_def Tensor_init_literal)
  show ?thesis
    using mag_def basis mn md me nd ne de nw1 nw2 nw3 dw a1_def a2_def a3_def init by blast
qed

lemma sqrt_25: "sqrt 25 = 5" using real_sqrt_abs [of 5] by simp
lemma sqrt_225: "sqrt 225 = 15" using real_sqrt_abs [of 15] by simp
lemma sqrt_100: "sqrt 100 = 10" using real_sqrt_abs [of 10] by simp
lemma sqrt_169: "sqrt 169 = 13" using real_sqrt_abs [of 13] by simp

lemma psd_base: "point_segment_dis \<lparr>x = - 12, y = - 5, z = 0\<rparr> \<lparr>x = 12, y = - 5, z = 0\<rparr> \<lparr>x = 0, y = 0, z = 0\<rparr> = 5"
  by (simp add: point_segment_dis_def Let_def dot_def Point_sub_def Point_add_def Point_mul_def
      euclidean_def sqrt_25)

lemma psd_side1: "5 \<le> point_segment_dis \<lparr>x = 0, y = 10, z = 0\<rparr> \<lparr>x = - 12, y = - 5, z = 0\<rparr> \<lparr>x = 0, y = 0, z = 0\<rparr>"
  apply (simp add: point_segment_dis_def Let_def dot_def Point_sub_def Point_add_def Point_mul_def
      euclidean_def)
  apply (rule real_le_rsqrt)
  apply (simp add: power2_eq_square)
  done

lemma psd_side2: "5 \<le> point_segment_dis \<lparr>x = 0, y = 10, z = 0\<rparr> \<lparr>x = 12, y = - 5, z = 0\<rparr> \<lparr>x = 0, y = 0, z = 0\<rparr>"
  apply (simp add: point_segment_dis_def Let_def dot_def Point_sub_def Point_add_def Point_mul_def
      euclidean_def)
  apply (rule real_le_rsqrt)
  apply (simp add: power2_eq_square)
  done

lemma psd_apex: "point_segment_dis \<lparr>x = - 12, y = - 5, z = 0\<rparr> \<lparr>x = 12, y = - 5, z = 0\<rparr> \<lparr>x = 0, y = 10, z = 0\<rparr> = 15"
  by (simp add: point_segment_dis_def Let_def dot_def Point_sub_def Point_add_def Point_mul_def
      euclidean_def sqrt_225)

lemma psd_left: "15 \<le> point_segment_dis \<lparr>x = 0, y = 10, z = 0\<rparr> \<lparr>x = 12, y = - 5, z = 0\<rparr> \<lparr>x = - 12, y = - 5, z = 0\<rparr>"
  apply (simp add: point_segment_dis_def Let_def dot_def Point_sub_def Point_add_def Point_mul_def
      euclidean_def)
  apply (rule real_le_rsqrt)
  apply (simp add: power2_eq_square)
  done

lemma psd_right: "15 \<le> point_segment_dis \<lparr>x = 0, y = 10, z = 0\<rparr> \<lparr>x = - 12, y = - 5, z = 0\<rparr> \<lparr>x = 12, y = - 5, z = 0\<rparr>"
  apply (simp add: point_segment_dis_def Let_def dot_def Point_sub_def Point_add_def Point_mul_def
      euclidean_def)
  apply (rule real_le_rsqrt)
  apply (simp add: power2_eq_square)
  done


lemma example_centroid: "avg_points example_vertices = Inr \<lparr>x = 0, y = 0, z = 0\<rparr>"
  by (simp add: avg_points_def example_vertices_def)

lemma example_mag:
  "min (point_segment_dis \<lparr>x = 0, y = 10, z = 0\<rparr> \<lparr>x = - 12, y = - 5, z = 0\<rparr> \<lparr>x = 0, y = 0, z = 0\<rparr>)
     (min (point_segment_dis \<lparr>x = 0, y = 10, z = 0\<rparr> \<lparr>x = 12, y = - 5, z = 0\<rparr> \<lparr>x = 0, y = 0, z = 0\<rparr>)
          (point_segment_dis \<lparr>x = - 12, y = - 5, z = 0\<rparr> \<lparr>x = 12, y = - 5, z = 0\<rparr> \<lparr>x = 0, y = 0, z = 0\<rparr>)) = 5"
  unfolding psd_base using psd_side1 psd_side2 by (simp add: min_def)

lemma example_claimed_radius:
  "claimed_radius \<lparr>x = 0, y = 10, z = 0\<rparr> \<lparr>x = - 12, y = - 5, z = 0\<rparr> \<lparr>x = 12, y = - 5, z = 0\<rparr> = 15"
  unfolding claimed_radius_def psd_apex using psd_left psd_right by (simp add: min_def)

lemma example_units:
  "Point_unit \<lparr>x = 0, y = 10, z = 0\<rparr> = Inr \<lparr>x = 0, y = 1, z = 0\<rparr>"
  "Point_unit \<lparr>x = - 12, y = - 5, z = 0\<rparr> = Inr \<lparr>x = - (12 / 13), y = - (5 / 13), z = 0\<rparr>"
  "Point_unit \<lparr>x = 0, y = 0, z = 12 / 13\<rparr> = Inr \<lparr>x = 0, y = 0, z = 1\<rparr>"
  "Point_unit \<lparr>x = 1, y = 0, z = 0\<rparr> = Inr \<lparr>x = 1, y = 0, z = 0\<rparr>"
proof -
  have "sqrt ((12 / 13)\<^sup>2) = 12 / 13" by simp
  then have s: "sqrt (144 / 169) = 12 / 13" by (simp add: power2_eq_square)
  show "Point_unit \<lparr>x = 0, y = 10, z = 0\<rparr> = Inr \<lparr>x = 0, y = 1, z = 0\<rparr>"
    by (simp add: Point_unit_def magnitude_def sqrt_100)
  show "Point_unit \<lparr>x = - 12, y = - 5, z = 0\<rparr> = Inr \<lparr>x = - (12 / 13), y = - (5 / 13), z = 0\<rparr>"
    by (simp add: Point_unit_def magnitude_def sqrt_169)
  show "Point_unit \<lparr>x = 0, y = 0, z = 12 / 13\<rparr> = Inr \<lparr>x = 0, y = 0, z = 1\<rparr>"
    by (simp add: Point_unit_def magnitude_def power2_eq_square s)
  show "Point_unit \<lparr>x = 1, y = 0, z = 0\<rparr> = Inr \<lparr>x = 1, y = 0, z = 0\<rparr>"
    by (simp add: Point_unit_def magnitude_def)
qed

lemma example_basis:
  "TriangleTensor_get_tensor_basis example_vertices =
     Inr [\<lparr>x = 0, y = 0, z = 5\<rparr>, \<lparr>x = 0, y = 5, z = 0\<rparr>, \<lparr>x = 5, y = 0, z = 0\<rparr>]"
proof -
  have c1: "cross \<lparr>x = 0, y = 1, z = 0\<rparr> \<lparr>x = - (12 / 13), y = - (5 / 13), z = 0\<rparr> = \<lparr>x = 0, y = 0, z = 12 / 13\<rparr>"
    by (simp add: cross_def)
  have c2: "cross \<lparr>x = 0, y = 1, z = 0\<rparr> \<lparr>x = 0, y = 0, z = 1\<rparr> = \<lparr>x = 1, y = 0, z = 0\<rparr>"
    by (simp add: cross_def)
  have sub: "Point_sub \<lparr>x = 0, y = 10, z = 0\<rparr> \<lparr>x = 0, y = 0, z = 0\<rparr> = \<lparr>x = 0, y = 10, z = 0\<rparr>"
    "Point_sub \<lparr>x = - 12, y = - 5, z = 0\<rparr> \<lparr>x = 0, y = 0, z = 0\<rparr> = \<lparr>x = - 12, y = - 5, z = 0\<rparr>"
    by (simp_all add: Point_sub_def)
  show ?thesis
    unfolding TriangleTensor_get_tensor_basis_def example_centroid Let_def
    unfolding example_vertices_def
    by (simp add: ebind_def list_get_def sub example_units c1 c2 example_mag Point_mul_def)
qed

theorem triangle_basis_witness:
  "\<exists>n d e.
     TriangleTensor_get_tensor_basis example_vertices =
       Inr [Point_mul n 5, Point_mul d 5, Point_mul e 5] \<and>
     magnitude n = 1 \<and> magnitude d = 1 \<and> magnitude e = 1 \<and>
     dot n d = 0 \<and> dot n e = 0 \<and> dot d e = 0 \<and>
     TriangleTensor_init example_vertices identity_pose =
       Inr \<lparr>tri_centre = \<lparr>x = 0, y = 0, z = 0\<rparr>,
            tri_tensor = \<lparr>t_h = 3, t_w = 3,
              t_tensor = [x (Point_mul n 5), x (Point_mul d 5), x (Point_mul e 5),
                          y (Point_mul n 5), y (Point_mul d 5), y (Point_mul e 5),
                          z (Point_mul n 5), z (Point_mul d 5), z (Point_mul e 5)]\<rparr>\<rparr>"
proof -
  let ?v0 = "\<lparr>x = 0, y = 10, z = 0\<rparr>" and ?v1 = "\<lparr>x = - 12, y = - 5, z = 0\<rparr>"
    and ?v2 = "\<lparr>x = 12, y = - 5, z = 0\<rparr>" and ?c = "\<lparr>x = 0, y = 0, z = 0\<rparr>"
  have h1: "avg_points [?v0, ?v1, ?v2] = Inr ?c"
    using example_centroid by (simp add: example_vertices_def)
  have h2: "cross (Point_sub ?v0 ?c) (Point_sub ?v1 ?c) \<noteq> \<lparr>x = 0, y = 0, z = 0\<rparr>"
    by (simp add: cross_def Point_sub_def)
  show ?thesis
    using triangle_basis [OF h1 h2, of identity_pose]
    unfolding example_mag example_vertices_def
    by (simp add: identity_pose_def) blast
qed

text \<open>
  Claim C3 as stated scales by the least distance from a vertex to the opposite edge and
  takes an edge direction for the second column.  For the triangle with the vertices
  \<open>(0, 10, 0)\<close>, \<open>(-12, -5, 0)\<close> and \<open>(12, -5, 0)\<close> that distance is 15, while the
  columns have length 5, the distance from the centroid to the nearest edge; and the
  second column \<open>(0, 5, 0)\<close> is parallel to none of the three edges.
\<close>

theorem triangle_radius_counterexample:
  "TriangleTensor_get_tensor_basis example_vertices =
     Inr [\<lparr>x = 0, y = 0, z = 5\<rparr>, \<lparr>x = 0, y = 5, z = 0\<rparr>, \<lparr>x = 5, y = 0, z = 0\<rparr>]
   \<and> TriangleTensor_init example_vertices identity_pose =
       Inr \<lparr>tri_centre = \<lparr>x = 0, y = 0, z = 0\<rparr>,
            tri_tensor = \<lparr>t_h = 3, t_w = 3, t_tensor = [0, 0, 5, 0, 5, 0, 5, 0, 0]\<rparr>\<rparr>
   \<and> claimed_radius \<lparr>x = 0, y = 10, z = 0\<rparr> \<lparr>x = - 12, y = - 5, z = 0\<rparr> \<lparr>x = 12, y = - 5, z = 0\<rparr> = 15
   \<and> magnitude \<lparr>x = 0, y = 0, z = 5\<rparr> = 5
   \<and> cross \<lparr>x = 0, y = 5, z = 0\<rparr>
         (Point_sub \<lparr>x = - 12, y = - 5, z = 0\<rparr> \<lparr>x = 0, y = 10, z = 0\<rparr>) \<noteq> \<lparr>x = 0, y = 0, z = 0\<rparr>
   \<and> cross \<lparr>x = 0, y = 5, z = 0\<rparr>
         (Point_sub \<lparr>x = 12, y = - 5, z = 0\<rparr> \<lparr>x = 0, y = 10, z = 0\<rparr>) \<noteq> \<lparr>x = 0, y = 0, z = 0\<rparr>
   \<and> cross \<lparr>x = 0, y = 5, z = 0\<rparr>
         (Point_sub \<lparr>x = 12, y = - 5, z = 0\<rparr> \<lparr>x = - 12, y = - 5, z = 0\<rparr>) \<noteq> \<lparr>x = 0, y = 0, z = 0\<rparr>"
proof -
  have i: "TriangleTensor_init example_vertices identity_pose =
       Inr \<lparr>tri_centre = \<lparr>x = 0, y = 0, z = 0\<rparr>,
            tri_tensor = \<lparr>t_h = 3, t_w = 3, t_tensor = [0, 0, 5, 0, 5, 0, 5, 0, 0]\<rparr>\<rparr>"
    unfolding TriangleTensor_init_def TriangleTensor_get_tensor_matrix_def example_basis
      example_centroid Let_def
    by (simp add: ebind_def list_get_def identity_pose_def Tensor_init_literal)
  have m: "magnitude \<lparr>x = 0, y = 0, z = 5\<rparr> = 5"
    by (simp add: magnitude_def power2_eq_square sqrt_25)
  have e: "cross \<lparr>x = 0, y = 5, z = 0\<rparr>
         (Point_sub \<lparr>x = - 12, y = - 5, z = 0\<rparr> \<lparr>x = 0, y = 10, z = 0\<rparr>) \<noteq> \<lparr>x = 0, y = 0, z = 0\<rparr>"
    "cross \<lparr>x = 0, y = 5, z = 0\<rparr>
         (Point_sub \<lparr>x = 12, y = - 5, z = 0\<rparr> \<lparr>x = 0, y = 10, z = 0\<rparr>) \<noteq> \<lparr>x = 0, y = 0, z = 0\<rparr>"
    "cross \<lparr>x = 0, y = 5, z = 0\<rparr>
         (Point_sub \<lparr>x = 12, y = - 5, z = 0\<rparr> \<lparr>x = - 12, y = - 5, z = 0\<rparr>) \<noteq> \<lparr>x = 0, y = 0, z = 0\<rparr>"
    by (simp_all add: cross_def Point_sub_def)
  show ?thesis using example_basis i example_claimed_radius m e by simp
qed

end
